theory Spec2Isabelle
  imports Main
begin

section \<open>JavaScript values\<close>

text \<open>
  The dashboard handles payloads of type \<^verbatim>\<open>unknown\<close>: whatever \<^verbatim>\<open>JSON.parse\<close> or
  \<^verbatim>\<open>response.json()\<close> returned. A payload is a JSON value; \<open>JUndef\<close> is JavaScript's
  \<^verbatim>\<open>undefined\<close>, the result of reading a property that is not there. Objects are
  association lists read with \<open>map_of\<close>. Strings are lists of bytes, the UTF-8 encoding of
  the text (the no-break space U+00A0 is the two bytes \<^verbatim>\<open>C2 A0\<close>). A number is held by the
  text that JavaScript prints for it (\<^verbatim>\<open>String(n)\<close>, which is also what a template literal
  prints: \<^verbatim>\<open>-32601\<close>, \<^verbatim>\<open>1.5\<close>, \<^verbatim>\<open>1e+21\<close>); that text determines the number but for
  the sign of zero, and both zeros print as \<^verbatim>\<open>0\<close>.
\<close>

datatype json =
    JUndef
  | JNull
  | JBool bool
  | JNum string
  | JStr string
  | JArr "json list"
  | JObj "(string \<times> json) list"

text \<open>Truthiness, as \<^verbatim>\<open>if (v)\<close>, \<^verbatim>\<open>!v\<close> and \<^verbatim>\<open>a || b\<close> test it.\<close>

fun truthy :: "json \<Rightarrow> bool" where
  "truthy JUndef = False"
| "truthy JNull = False"
| "truthy (JBool b) = b"
| "truthy (JNum n) = (n \<noteq> ''0'' \<and> n \<noteq> ''NaN'')"
| "truthy (JStr s) = (s \<noteq> [])"
| "truthy (JArr _) = True"
| "truthy (JObj _) = True"

text \<open>\<^verbatim>\<open>typeof v === "object"\<close>: true of objects, arrays and \<^verbatim>\<open>null\<close>.\<close>

fun typeof_object :: "json \<Rightarrow> bool" where
  "typeof_object JNull = True"
| "typeof_object (JArr _) = True"
| "typeof_object (JObj _) = True"
| "typeof_object _ = False"

fun isArray :: "json \<Rightarrow> bool" where
  "isArray (JArr _) = True"
| "isArray _ = False"

fun elems :: "json \<Rightarrow> json list" where
  "elems (JArr xs) = xs"
| "elems _ = []"

text \<open>
  Property access \<^verbatim>\<open>v.k\<close> on a value that is not \<^verbatim>\<open>null\<close> or \<^verbatim>\<open>undefined\<close>, and
  \<^verbatim>\<open>v?.k\<close> on any value: a missing key, and any key of a primitive or an array (none of
  the keys the program reads is a built-in property), is \<^verbatim>\<open>undefined\<close>.
\<close>

fun jsGet :: "json \<Rightarrow> string \<Rightarrow> json" where
  "jsGet (JObj kvs) k = (case map_of kvs k of Some v \<Rightarrow> v | None \<Rightarrow> JUndef)"
| "jsGet _ k = JUndef"

text \<open>\<^verbatim>\<open>a ?? b\<close> and \<^verbatim>\<open>a || b\<close>.\<close>

fun nullish :: "json \<Rightarrow> bool" where
  "nullish JUndef = True"
| "nullish JNull = True"
| "nullish _ = False"

definition js_coalesce :: "json \<Rightarrow> json \<Rightarrow> json" where
  "js_coalesce a b = (if nullish a then b else a)"

definition js_or :: "json \<Rightarrow> json \<Rightarrow> json" where
  "js_or a b = (if truthy a then a else b)"

text \<open>
  Strict equality \<^verbatim>\<open>a === b\<close> of two values that do not share a reference: primitives are
  compared by value, and an object or array is never equal to one parsed elsewhere.
\<close>

fun strict_eq :: "json \<Rightarrow> json \<Rightarrow> bool" where
  "strict_eq JUndef JUndef = True"
| "strict_eq JNull JNull = True"
| "strict_eq (JBool a) (JBool b) = (a = b)"
| "strict_eq (JNum a) (JNum b) = (a = b \<and> a \<noteq> ''NaN'')"
| "strict_eq (JStr a) (JStr b) = (a = b)"
| "strict_eq _ _ = False"

subsection \<open>Strings\<close>

abbreviation NL :: char where
  "NL \<equiv> CHR 0x0A"

text \<open>
  Decimal rendering of a natural number, as a template literal prints the position of an
  entry of an array (an array has fewer than \<open>2 ^ 32\<close> entries, and JavaScript prints the
  integers of that size in plain decimal).
\<close>

definition digit_char :: "nat \<Rightarrow> char" where
  "digit_char d = ''0123456789'' ! d"

function string_of_nat :: "nat \<Rightarrow> string" where
  "string_of_nat n =
     (if n < 10 then [digit_char n] else string_of_nat (n div 10) @ [digit_char (n mod 10)])"
  by pat_completeness auto
termination
  by (relation "measure id") auto

declare string_of_nat.simps [simp del]

text \<open>\<^verbatim>\<open>parts.join(sep)\<close>.\<close>

fun join :: "string \<Rightarrow> string list \<Rightarrow> string" where
  "join sep [] = []"
| "join sep [x] = x"
| "join sep (x # y # ys) = x @ sep @ join sep (y # ys)"

text \<open>\<^verbatim>\<open>text.split("\n").join(sep)\<close>: every line feed replaced by \<open>sep\<close>.\<close>

fun replace_newlines :: "string \<Rightarrow> string \<Rightarrow> string" where
  "replace_newlines sep [] = []"
| "replace_newlines sep (c # cs) =
     (if c = NL then sep @ replace_newlines sep cs else c # replace_newlines sep cs)"

text \<open>
  The white space and line terminators of ECMAScript, each as its UTF-8 bytes: U+0009 to
  U+000D, U+0020, U+00A0, U+1680, U+2000 to U+200A, U+2028, U+2029, U+202F, U+205F, U+3000
  and U+FEFF.
\<close>

definition whiteSpace :: "string list" where
  "whiteSpace =
     [[CHR 0x09], [CHR 0x0A], [CHR 0x0B], [CHR 0x0C], [CHR 0x0D], [CHR 0x20],
      [CHR 0xC2, CHR 0xA0],
      [CHR 0xE1, CHR 0x9A, CHR 0x80],
      [CHR 0xE2, CHR 0x80, CHR 0x80], [CHR 0xE2, CHR 0x80, CHR 0x81],
      [CHR 0xE2, CHR 0x80, CHR 0x82], [CHR 0xE2, CHR 0x80, CHR 0x83],
      [CHR 0xE2, CHR 0x80, CHR 0x84], [CHR 0xE2, CHR 0x80, CHR 0x85],
      [CHR 0xE2, CHR 0x80, CHR 0x86], [CHR 0xE2, CHR 0x80, CHR 0x87],
      [CHR 0xE2, CHR 0x80, CHR 0x88], [CHR 0xE2, CHR 0x80, CHR 0x89],
      [CHR 0xE2, CHR 0x80, CHR 0x8A],
      [CHR 0xE2, CHR 0x80, CHR 0xA8], [CHR 0xE2, CHR 0x80, CHR 0xA9],
      [CHR 0xE2, CHR 0x80, CHR 0xAF],
      [CHR 0xE2, CHR 0x81, CHR 0x9F],
      [CHR 0xE3, CHR 0x80, CHR 0x80],
      [CHR 0xEF, CHR 0xBB, CHR 0xBF]]"

text \<open>
  The text without the tokens it starts with: while one of the tokens is a prefix of the
  text, it is dropped.
\<close>

function stripLeading :: "string list \<Rightarrow> string \<Rightarrow> string" where
  "stripLeading tokens s =
     (case find (\<lambda>w. w \<noteq> [] \<and> take (length w) s = w) tokens of
        Some w \<Rightarrow> stripLeading tokens (drop (length w) s)
      | None \<Rightarrow> s)"
  by pat_completeness auto
termination
proof (relation "measure (\<lambda>(tokens, s). length s)")
  fix tokens :: "string list" and s w :: string
  assume "find (\<lambda>w. w \<noteq> [] \<and> take (length w) s = w) tokens = Some w"
  then have w: "w \<noteq> []" "take (length w) s = w"
    by (auto simp: find_Some_iff)
  from w(2) have "length (take (length w) s) = length w"
    by simp
  then have "length w \<le> length s"
    by simp
  with w(1) show "((tokens, drop (length w) s), (tokens, s)) \<in> measure (\<lambda>(tokens, s). length s)"
    by (cases w) auto
qed simp

declare stripLeading.simps [simp del]

text \<open>
  \<^verbatim>\<open>String.prototype.trim\<close>: the white space is stripped from the start, and from the end
  (as from the start of the reversed text, with each token reversed).
\<close>

definition trim :: "string \<Rightarrow> string" where
  "trim s = rev (stripLeading (map rev whiteSpace) (rev (stripLeading whiteSpace s)))"

section \<open>Response content extractor\<close>

text \<open>\<^verbatim>\<open>extractErrorSummary\<close>; \<open>None\<close> is the source's \<^verbatim>\<open>null\<close>.\<close>

definition extractErrorSummary :: "json \<Rightarrow> string option" where
  "extractErrorSummary data =
     (if \<not> truthy data \<or> \<not> typeof_object data then None
      else
        let error = js_coalesce (jsGet data ''error'') (jsGet (jsGet data ''data'') ''error'') in
        if \<not> truthy error \<or> \<not> typeof_object error then None
        else
          let code = (case jsGet error ''code'' of JNum n \<Rightarrow> Some n | _ \<Rightarrow> None);
              message = (case jsGet error ''message'' of JStr m \<Rightarrow> Some m | _ \<Rightarrow> None)
          in
          (case (code, message) of
             (Some c, Some m) \<Rightarrow>
               if m \<noteq> [] then Some (''Agent error '' @ c @ '': '' @ m)
               else Some (''Agent error '' @ c)
           | (None, Some m) \<Rightarrow>
               if m \<noteq> [] then Some (''Agent error: '' @ m)
               else Some ''Agent returned an error.''
           | (Some c, None) \<Rightarrow> Some (''Agent error '' @ c)
           | (None, None) \<Rightarrow> Some ''Agent returned an error.''))"

text \<open>\<^verbatim>\<open>extractTextFromParts\<close>: the text of the first part of kind \<^verbatim>\<open>"text"\<close>.\<close>

fun extractTextFromParts :: "json list \<Rightarrow> string option" where
  "extractTextFromParts [] = None"
| "extractTextFromParts (part # parts) =
     (if truthy part \<and> typeof_object part \<and> jsGet part ''kind'' = JStr ''text''
      then (case jsGet part ''text'' of
              JStr t \<Rightarrow> Some t
            | _ \<Rightarrow> extractTextFromParts parts)
      else extractTextFromParts parts)"

text \<open>
  The text found, when it is truthy: \<^verbatim>\<open>const text = extractTextFromParts(..); if (text)\<close>.
\<close>

definition truthyText :: "json list \<Rightarrow> string option" where
  "truthyText parts =
     (case extractTextFromParts parts of
        Some t \<Rightarrow> if t \<noteq> [] then Some t else None
      | None \<Rightarrow> None)"

text \<open>
  One artifact's block of \<^verbatim>\<open>extractArtifactsInfo\<close>. The paperclip emoji of the source is
  written as its four UTF-8 bytes.
\<close>

definition paperclip :: string where
  "paperclip = [CHR 0xF0, CHR 0x9F, CHR 0x93, CHR 0x8E]"

definition artifactBlock :: "json \<Rightarrow> string option" where
  "artifactBlock artifact =
     (if \<not> truthy artifact then None
      else
        let name = (case jsGet artifact ''name'' of JStr n \<Rightarrow> n | _ \<Rightarrow> ''artifact'') in
        if isArray (jsGet artifact ''parts'') then
          (case truthyText (elems (jsGet artifact ''parts'')) of
             Some text \<Rightarrow>
               Some (''> '' @ paperclip @ '' **'' @ name @ ''**'' @ [NL] @ ''>'' @ [NL]
                     @ ''> ```json'' @ [NL] @ ''> '' @ replace_newlines (NL # ''> '') text
                     @ [NL] @ ''> ```'')
           | None \<Rightarrow> None)
        else None)"

definition extractArtifactsInfo :: "json \<Rightarrow> string option" where
  "extractArtifactsInfo artifacts =
     (if \<not> isArray artifacts \<or> elems artifacts = [] then None
      else
        let artifactParts = List.map_filter artifactBlock (elems artifacts) in
        if artifactParts = [] then None
        else
          let header = (if length artifactParts = 1 then ''**Artifact:**'' else ''**Artifacts:**'')
          in Some ([NL, NL] @ header @ [NL, NL] @ join [NL, NL] artifactParts))"

text \<open>The three sources of a task's display text, in the source's order.\<close>

definition statusMessageParts :: "json \<Rightarrow> string list" where
  "statusMessageParts status =
     (let m = jsGet status ''message'' in
      if truthy m then
        (case m of
           JStr s \<Rightarrow> [s]
         | _ \<Rightarrow>
           if jsGet m ''kind'' = JStr ''message'' \<and> isArray (jsGet m ''parts'')
           then (case truthyText (elems (jsGet m ''parts'')) of Some t \<Rightarrow> [t] | None \<Rightarrow> [])
           else [])
      else [])"

text \<open>
  The history scan \<^verbatim>\<open>for (i = history.length - 1; i >= 0; i--)\<close>, given the history
  reversed: the first agent message with a truthy text part ends the loop.
\<close>

fun historyScan :: "json list \<Rightarrow> string list" where
  "historyScan [] = []"
| "historyScan (msg # earlier) =
     (if jsGet msg ''role'' = JStr ''agent'' \<and> isArray (jsGet msg ''parts'')
      then (case truthyText (elems (jsGet msg ''parts'')) of
              Some t \<Rightarrow> [t]
            | None \<Rightarrow> historyScan earlier)
      else historyScan earlier)"

definition taskContentParts :: "json \<Rightarrow> string list" where
  "taskContentParts record =
     (let status = jsGet record ''status'';
          history = jsGet record ''history'';
          artifacts = jsGet record ''artifacts'';
          parts1 = statusMessageParts status;
          parts2 = (if parts1 = [] \<and> isArray history \<and> elems history \<noteq> []
                    then historyScan (rev (elems history)) else parts1);
          parts3 = (if isArray artifacts \<and> elems artifacts \<noteq> []
                    then (case extractArtifactsInfo artifacts of
                            Some info \<Rightarrow> parts2 @ [info]
                          | None \<Rightarrow> parts2)
                    else parts2)
      in parts3)"

text \<open>
  What a template literal prints for a value, \<^verbatim>\<open>`${v}`\<close>. An array prints its entries
  separated by commas, with nothing for an entry that is \<^verbatim>\<open>null\<close> or \<^verbatim>\<open>undefined\<close>. An
  object prints as \<^verbatim>\<open>[object Object]\<close>, unless it has a key \<^verbatim>\<open>toString\<close>: a parsed value is
  never a function, so the conversion finds no method that yields a primitive and throws
  a \<^verbatim>\<open>TypeError\<close>, which is \<open>None\<close> here. \<open>TO_PRIMITIVE_ERROR\<close> is the message of that
  error on Node.js and Chrome.
\<close>

fun jsToString :: "json \<Rightarrow> string option" where
  "jsToString JUndef = Some ''undefined''"
| "jsToString JNull = Some ''null''"
| "jsToString (JBool b) = Some (if b then ''true'' else ''false'')"
| "jsToString (JNum n) = Some n"
| "jsToString (JStr s) = Some s"
| "jsToString (JArr xs) =
     map_option (join '','')
       (those (map (\<lambda>x. if nullish x then Some [] else jsToString x) xs))"
| "jsToString (JObj kvs) =
     (if map_of kvs ''toString'' = None then Some ''[object Object]'' else None)"

definition TO_PRIMITIVE_ERROR :: string where
  "TO_PRIMITIVE_ERROR = ''Cannot convert object to primitive value''"

text \<open>
  The fallback sentence keyed by \<^verbatim>\<open>status.state\<close>. In the default branch the template
  literal prints \<^verbatim>\<open>state || "unknown"\<close>, whatever the type of the state; \<open>None\<close> when
  that throws.
\<close>

definition stateFallback :: "json \<Rightarrow> string option" where
  "stateFallback state =
     (if state = JStr ''submitted'' then Some ''Task submitted, waiting for agent...''
      else if state = JStr ''working'' then Some ''Agent is working on your request...''
      else if state = JStr ''input-required'' then Some ''Agent requires additional input.''
      else if state = JStr ''completed'' then Some ''Task completed.''
      else if state = JStr ''failed'' then Some ''Task failed.''
      else if state = JStr ''canceled'' then Some ''Task was canceled.''
      else map_option (\<lambda>printed. ''Task status: '' @ printed)
             (if truthy state then jsToString state else Some ''unknown''))"

text \<open>
  \<^verbatim>\<open>extractResponseText\<close>. Its last resort \<^verbatim>\<open>formatJson\<close> is the platform's
  \<^verbatim>\<open>JSON.stringify(value, null, 2)\<close>, taken as a parameter. The result is \<open>None\<close> when the
  function throws, which only the fallback sentence of a task can do.
\<close>

definition legacyResultText :: "json \<Rightarrow> string option" where
  "legacyResultText record =
     (let result = jsGet record ''result'' in
      case result of
        JStr r \<Rightarrow> Some r
      | _ \<Rightarrow>
        if truthy result \<and> typeof_object result then
          (case js_coalesce (jsGet result ''message'')
                  (js_coalesce (jsGet result ''content'') (jsGet result ''text'')) of
             JStr t \<Rightarrow> Some t
           | _ \<Rightarrow> None)
        else None)"

definition extractObjectText :: "(json \<Rightarrow> string) \<Rightarrow> json \<Rightarrow> string option" where
  "extractObjectText formatJson record =
     (if jsGet record ''kind'' = JStr ''task'' then
        (let responseParts = taskContentParts record in
         if responseParts \<noteq> [] then Some (concat responseParts)
         else stateFallback (jsGet (jsGet record ''status'') ''state''))
      else
        (case (if jsGet record ''kind'' = JStr ''message'' \<and> isArray (jsGet record ''parts'')
               then truthyText (elems (jsGet record ''parts'')) else None) of
           Some text \<Rightarrow> Some text
         | None \<Rightarrow>
           (case legacyResultText record of
              Some t \<Rightarrow> Some t
            | None \<Rightarrow> Some (formatJson record))))"

definition truthySummary :: "json \<Rightarrow> string option" where
  "truthySummary data =
     (case extractErrorSummary data of
        Some summary \<Rightarrow> if summary \<noteq> [] then Some summary else None
      | None \<Rightarrow> None)"

definition extractResponseText :: "(json \<Rightarrow> string) \<Rightarrow> json \<Rightarrow> string option" where
  "extractResponseText formatJson data =
     (case (if truthy data \<and> typeof_object data then jsGet data ''error'' else JUndef) of
        JStr e \<Rightarrow> Some e
      | _ \<Rightarrow>
        (case truthySummary data of
           Some summary \<Rightarrow> Some summary
         | None \<Rightarrow>
           (case data of
              JStr s \<Rightarrow> Some s
            | _ \<Rightarrow>
              if truthy data \<and> typeof_object data then extractObjectText formatJson data
              else Some (formatJson data))))"

subsection \<open>Example payloads\<close>

text \<open>The JSON-RPC error response \<^verbatim>\<open>{"error":{"code":-32601,"message":"Method not found"}}\<close>.\<close>

definition scenarioD :: json where
  "scenarioD =
     JObj [(''error'', JObj [(''code'', JNum ''-32601''), (''message'', JStr ''Method not found'')])]"

text \<open>The same response with an empty message: \<^verbatim>\<open>{"error":{"code":-32601,"message":""}}\<close>.\<close>

definition emptyMessageError :: json where
  "emptyMessageError = JObj [(''error'', JObj [(''code'', JNum ''-32601''), (''message'', JStr '''')])]"

text \<open>
  A payload whose top-level \<^verbatim>\<open>error\<close> is a string, and which also has a task kind, a
  legacy result and a nested error object.
\<close>

definition shadowedError :: json where
  "shadowedError =
     JObj [(''error'', JStr ''boom''), (''kind'', JStr ''task''), (''result'', JStr ''legacy''),
           (''data'', JObj [(''error'', JObj [(''code'', JNum ''1''), (''message'', JStr ''nested'')])])]"

section \<open>Agent cards and per-agent state\<close>

text \<open>The types of \<^verbatim>\<open>lib/a2a/schema.ts\<close>; an optional field is an \<open>option\<close>.\<close>

record agent_skill =
  skill_name :: string
  skill_id :: "string option"
  skill_description :: "string option"
  skill_examples :: "string list option"
  skill_tags :: "string list option"
  skill_inputModes :: "string list option"
  skill_outputModes :: "string list option"

record agent_endpoint =
  ep_id :: string
  ep_name :: string
  ep_url :: string
  ep_protocol :: string

record agent_capabilities =
  streaming :: bool
  pushNotifications :: bool
  stateTransitionHistory :: bool

record agent_provider =
  organization :: "string option"
  provider_url :: "string option"

datatype auth_type = AuthNone | AuthBearer | AuthApiKey | AuthCustom

record agent_auth_config =
  auth_kind :: auth_type
  token :: "string option"
  apiKeyHeader :: "string option"
  apiKeyValue :: "string option"
  customHeaders :: "(string \<times> string) list option"

record agent_card =
  card_id :: string
  card_name :: string
  card_description :: "string option"
  card_version :: "string option"
  card_protocolVersion :: "string option"
  card_url :: "string option"
  card_provider :: "agent_provider option"
  defaultInputModes :: "string list option"
  defaultOutputModes :: "string list option"
  skills :: "agent_skill list"
  endpoints :: "agent_endpoint list"
  capabilities :: agent_capabilities
  raw :: json

text \<open>
  The types of the dashboard page. Fields that the page fills from a payload by a cast
  (\<^verbatim>\<open>parsed.id as string\<close>) hold whatever value the payload had, so they are JSON values
  here; \<open>JUndef\<close> is an absent field.
\<close>

datatype message_role = User | Assistant

datatype message_status = Pending | Streaming | Complete | Error

record chat_message =
  msg_id :: string
  msg_role :: message_role
  msg_content :: string
  msg_timestamp :: string
  msg_status :: "message_status option"
  msg_error :: "string option"
  msg_taskId :: json
  msg_taskState :: json

record rpc_log_entry =
  log_id :: string
  log_endpointUrl :: string
  log_requestPayload :: json
  log_requestHeaders :: "(string \<times> string) list option"
  log_responsePayload :: json
  log_status :: json
  log_startedAt :: string
  log_completedAt :: "string option"
  log_durationMs :: "int option"

record tracked_task =
  tt_taskId :: json
  tt_contextId :: json
  tt_state :: json
  tt_lastUpdated :: string
  tt_createdAt :: string
  tt_message :: "string option"

text \<open>
  The React state of the page (\<^verbatim>\<open>useState\<close> hooks of \<^verbatim>\<open>Home\<close>) that the handlers below
  read and write. A \<^verbatim>\<open>Record<string, T>\<close> keyed by agent id is a map. The texts of the two
  input boxes of the register dialog, \<^verbatim>\<open>cardUrl\<close> and \<^verbatim>\<open>cardJson\<close>, are \<open>cardUrlInput\<close> and
  \<open>cardJsonInput\<close> here.

  The records are plain objects, so a read \<^verbatim>\<open>record[id]\<close> with an id that names a member
  of \<^verbatim>\<open>Object.prototype\<close> finds that member when the record has no entry of its own. The
  maps do not have these members: the handlers below are those of the page for the agent
  ids that are not in \<open>objectPrototypeKeys\<close>, and \<open>handleRegister\<close>, where such an id
  enters the state, says so.
\<close>

record app_state =
  agents :: "agent_card list"
  selectedAgentId :: "string option"
  messagesByAgent :: "string \<rightharpoonup> chat_message list"
  rpcLogsByAgent :: "string \<rightharpoonup> rpc_log_entry list"
  endpointByAgent :: "string \<rightharpoonup> string"
  endpointOverrideByAgent :: "string \<rightharpoonup> string"
  methodByAgent :: "string \<rightharpoonup> string"
  contextIdByAgent :: "string \<rightharpoonup> json"
  taskIdByAgent :: "string \<rightharpoonup> json"
  authByAgent :: "string \<rightharpoonup> agent_auth_config"
  trackedTasksByAgent :: "string \<rightharpoonup> tracked_task list"
  chatError :: "string option"
  sending :: bool
  registerError :: "string option"
  registering :: bool
  registerDialogOpen :: bool
  cardUrlInput :: string
  cardJsonInput :: string
  fetchingTask :: bool
  taskIdInput :: string

definition objectPrototypeKeys :: "string list" where
  "objectPrototypeKeys =
     [''constructor'', ''__defineGetter__'', ''__defineSetter__'', ''hasOwnProperty'',
      ''__lookupGetter__'', ''__lookupSetter__'', ''isPrototypeOf'', ''propertyIsEnumerable'',
      ''toString'', ''valueOf'', ''__proto__'', ''toLocaleString'']"

definition SUPPORTED_METHODS :: "string list" where
  "SUPPORTED_METHODS = [''message/send'', ''message/stream'', ''tasks/get'']"

definition DEFAULT_METHOD :: string where
  "DEFAULT_METHOD = ''message/send''"

text \<open>\<^verbatim>\<open>selectedAgent\<close>: the first registered agent with the selected id.\<close>

definition selectedAgent :: "app_state \<Rightarrow> agent_card option" where
  "selectedAgent s =
     (case selectedAgentId s of
        None \<Rightarrow> None
      | Some sid \<Rightarrow> find (\<lambda>agent. card_id agent = sid) (agents s))"

text \<open>\<^verbatim>\<open>prev[id] ?? []\<close>.\<close>

definition listOf :: "(string \<rightharpoonup> 'a list) \<Rightarrow> string \<Rightarrow> 'a list" where
  "listOf m k = (case m k of Some xs \<Rightarrow> xs | None \<Rightarrow> [])"

subsection \<open>Registration\<close>

text \<open>
  \<^verbatim>\<open>handleRegister\<close>, given what its \<^verbatim>\<open>try\<close> block met: an exception (of
  \<^verbatim>\<open>JSON.parse\<close>, \<^verbatim>\<open>fetch\<close> or \<^verbatim>\<open>response.json()\<close>) with its message, a response that is
  not \<^verbatim>\<open>ok\<close> with its \<^verbatim>\<open>errors\<close> when they are an array, or an accepted card.

  For the accepted card, \<^verbatim>\<open>prev[card.id] ?? ...\<close> keeps the selection stored under the id.
  When nothing is stored and the id names a member of \<^verbatim>\<open>Object.prototype\<close>, the read
  finds that member (a function, or the prototype itself), which is not nullish, and
  stores it as the agent's endpoint or method: no \<open>app_state\<close> describes the result, which
  is \<open>None\<close>.
\<close>

definition inheritedMember :: "(string \<rightharpoonup> 'a) \<Rightarrow> string \<Rightarrow> bool" where
  "inheritedMember m k = (m k = None \<and> k \<in> set objectPrototypeKeys)"

datatype register_outcome =
    RegisterThrew string
  | RegisterRejected "string list option"
  | RegisterAccepted agent_card

definition handleRegister :: "register_outcome \<Rightarrow> app_state \<Rightarrow> app_state option" where
  "handleRegister outcome s0 =
     (let s = s0\<lparr>registerError := None, registering := True\<rparr> in
      case outcome of
        RegisterThrew message \<Rightarrow> Some (s\<lparr>registerError := Some message, registering := False\<rparr>)
      | RegisterRejected errors \<Rightarrow>
          Some (s\<lparr>registerError :=
               Some (case errors of Some es \<Rightarrow> join '' '' es | None \<Rightarrow> ''Invalid card.''),
            registering := False\<rparr>)
      | RegisterAccepted newCard \<Rightarrow>
          if inheritedMember (endpointByAgent s) (card_id newCard)
             \<or> inheritedMember (methodByAgent s) (card_id newCard)
          then None
          else Some (s\<lparr>agents := newCard # filter (\<lambda>agent. card_id agent \<noteq> card_id newCard) (agents s),
            selectedAgentId := Some (card_id newCard),
            endpointByAgent := (endpointByAgent s)(card_id newCard \<mapsto>
               (case endpointByAgent s (card_id newCard) of
                  Some chosen \<Rightarrow> chosen
                | None \<Rightarrow> (case endpoints newCard of ep # _ \<Rightarrow> ep_url ep | [] \<Rightarrow> ''''))),
            methodByAgent := (methodByAgent s)(card_id newCard \<mapsto>
               (case methodByAgent s (card_id newCard) of
                  Some chosen \<Rightarrow> chosen
                | None \<Rightarrow> DEFAULT_METHOD)),
            cardUrlInput := '''',
            cardJsonInput := '''',
            registerError := None,
            registerDialogOpen := False,
            registering := False\<rparr>))"

subsection \<open>Deletion and new conversation\<close>

text \<open>\<^verbatim>\<open>handleDeleteAgent\<close>: each \<^verbatim>\<open>delete newState[agentId]\<close> removes the key of one map.\<close>

definition handleDeleteAgent :: "string \<Rightarrow> app_state \<Rightarrow> app_state" where
  "handleDeleteAgent agentId s =
     s\<lparr>agents := filter (\<lambda>agent. card_id agent \<noteq> agentId) (agents s),
       messagesByAgent := (messagesByAgent s)(agentId := None),
       rpcLogsByAgent := (rpcLogsByAgent s)(agentId := None),
       endpointByAgent := (endpointByAgent s)(agentId := None),
       methodByAgent := (methodByAgent s)(agentId := None),
       contextIdByAgent := (contextIdByAgent s)(agentId := None),
       taskIdByAgent := (taskIdByAgent s)(agentId := None),
       authByAgent := (authByAgent s)(agentId := None),
       trackedTasksByAgent := (trackedTasksByAgent s)(agentId := None),
       selectedAgentId := (if selectedAgentId s = Some agentId then None else selectedAgentId s)\<rparr>"

definition handleNewConversation :: "app_state \<Rightarrow> app_state" where
  "handleNewConversation s =
     (case selectedAgent s of
        None \<Rightarrow> s
      | Some agent \<Rightarrow>
          s\<lparr>messagesByAgent := (messagesByAgent s)(card_id agent \<mapsto> []),
            contextIdByAgent := (contextIdByAgent s)(card_id agent := None),
            taskIdByAgent := (taskIdByAgent s)(card_id agent := None),
            chatError := None\<rparr>)"

subsection \<open>Example states\<close>

text \<open>The state of a freshly loaded page: the initial values of the \<^verbatim>\<open>useState\<close> hooks.\<close>

definition initialState :: app_state where
  "initialState =
     \<lparr>agents = [], selectedAgentId = None, messagesByAgent = Map.empty,
      rpcLogsByAgent = Map.empty, endpointByAgent = Map.empty,
      endpointOverrideByAgent = Map.empty, methodByAgent = Map.empty,
      contextIdByAgent = Map.empty, taskIdByAgent = Map.empty, authByAgent = Map.empty,
      trackedTasksByAgent = Map.empty, chatError = None, sending = False,
      registerError = None, registering = False, registerDialogOpen = False,
      cardUrlInput = '''', cardJsonInput = '''', fetchingTask = False, taskIdInput = ''''\<rparr>"

text \<open>
  The card \<^verbatim>\<open>{"name":"Echo","url":"https://x/a","capabilities":{"streaming":false}}\<close> and
  the card that \<^verbatim>\<open>normalizeAgentCard\<close> makes of it when it is registered as pasted JSON
  (the register route then passes the card's own \<^verbatim>\<open>url\<close> as the source URL).
\<close>

definition scenarioA :: json where
  "scenarioA =
     JObj [(''name'', JStr ''Echo''), (''url'', JStr ''https://x/a''),
           (''capabilities'', JObj [(''streaming'', JBool False)])]"

definition echoCard :: agent_card where
  "echoCard =
     \<lparr>card_id = ''https://x/a'', card_name = ''Echo'', card_description = None,
      card_version = None, card_protocolVersion = None, card_url = Some ''https://x/a'',
      card_provider = None, defaultInputModes = None, defaultOutputModes = None,
      skills = [],
      endpoints = [\<lparr>ep_id = ''jsonrpc-1'', ep_name = ''Echo'', ep_url = ''https://x/a'',
                    ep_protocol = ''jsonrpc''\<rparr>],
      capabilities = \<lparr>streaming = False, pushNotifications = False,
                       stateTransitionHistory = False\<rparr>,
      raw = scenarioA\<rparr>"

text \<open>
  A session with that agent: one exchange that failed, an endpoint override typed by the
  user, an API key, a context id, a task waiting for input and its tracked entry.
\<close>

definition echoMessages :: "chat_message list" where
  "echoMessages =
     [\<lparr>msg_id = ''u1'', msg_role = User, msg_content = ''hello'',
       msg_timestamp = ''2026-01-01T00:00:00.000Z'', msg_status = Some Complete,
       msg_error = None, msg_taskId = JUndef, msg_taskState = JUndef\<rparr>,
      \<lparr>msg_id = ''a1'', msg_role = Assistant, msg_content = ''Request failed: timeout'',
       msg_timestamp = ''2026-01-01T00:00:01.000Z'', msg_status = Some Error,
       msg_error = Some ''timeout'', msg_taskId = JUndef, msg_taskState = JUndef\<rparr>]"

definition echoAuth :: agent_auth_config where
  "echoAuth =
     \<lparr>auth_kind = AuthApiKey, token = None, apiKeyHeader = Some ''X-API-Key'',
      apiKeyValue = Some ''secret'', customHeaders = None\<rparr>"

definition echoTask :: tracked_task where
  "echoTask =
     \<lparr>tt_taskId = JStr ''t1'', tt_contextId = JStr ''c1'', tt_state = JStr ''input-required'',
      tt_lastUpdated = ''2026-01-01T00:00:01.000Z'', tt_createdAt = ''2026-01-01T00:00:00.500Z'',
      tt_message = None\<rparr>"

definition echoSession :: app_state where
  "echoSession =
     initialState
       \<lparr>agents := [echoCard],
        selectedAgentId := Some ''https://x/a'',
        messagesByAgent := [''https://x/a'' \<mapsto> echoMessages],
        endpointByAgent := [''https://x/a'' \<mapsto> ''https://x/a''],
        endpointOverrideByAgent := [''https://x/a'' \<mapsto> ''https://x/override''],
        methodByAgent := [''https://x/a'' \<mapsto> ''message/stream''],
        contextIdByAgent := [''https://x/a'' \<mapsto> JStr ''c1''],
        taskIdByAgent := [''https://x/a'' \<mapsto> JStr ''t1''],
        authByAgent := [''https://x/a'' \<mapsto> echoAuth],
        trackedTasksByAgent := [''https://x/a'' \<mapsto> [echoTask]]\<rparr>"

text \<open>A newer card of the same agent: same id, another version and endpoint.\<close>

definition echoCardV2 :: agent_card where
  "echoCardV2 = echoCard\<lparr>card_version := Some ''2.0'',
     endpoints := [\<lparr>ep_id = ''jsonrpc-1'', ep_name = ''Echo'', ep_url = ''https://x/v2'',
                    ep_protocol = ''jsonrpc''\<rparr>]\<rparr>"

section \<open>Task bookkeeping\<close>

text \<open>\<^verbatim>\<open>Array.prototype.findIndex\<close>; \<open>None\<close> is the source's \<^verbatim>\<open>-1\<close>.\<close>

fun findIndex :: "('a \<Rightarrow> bool) \<Rightarrow> 'a list \<Rightarrow> nat option" where
  "findIndex P [] = None"
| "findIndex P (x # xs) = (if P x then Some 0 else map_option Suc (findIndex P xs))"

text \<open>
  What one sighting of a task says: the fields of \<^verbatim>\<open>taskData\<close> that do not depend on the
  stored list, and the time \<^verbatim>\<open>now\<close> at which the state updater runs.
\<close>

record task_observation =
  ob_taskId :: json
  ob_contextId :: json
  ob_state :: json
  ob_message :: "string option"
  ob_now :: string

text \<open>
  The updater given to \<^verbatim>\<open>setTrackedTasksByAgent\<close>, on the agent's list. The page has this
  code three times, word for word but for the names of the variables: for a streaming
  frame, for a non-streaming response and in \<^verbatim>\<open>handleFetchTask\<close>.
\<close>

definition upsertTrackedTask :: "task_observation \<Rightarrow> tracked_task list \<Rightarrow> tracked_task list" where
  "upsertTrackedTask ob existingTasks =
     (case findIndex (\<lambda>t. strict_eq (tt_taskId t) (ob_taskId ob)) existingTasks of
        Some existingTaskIndex \<Rightarrow>
          existingTasks[existingTaskIndex :=
            \<lparr>tt_taskId = ob_taskId ob, tt_contextId = ob_contextId ob, tt_state = ob_state ob,
             tt_lastUpdated = ob_now ob,
             tt_createdAt = tt_createdAt (existingTasks ! existingTaskIndex),
             tt_message = ob_message ob\<rparr>]
      | None \<Rightarrow>
          \<lparr>tt_taskId = ob_taskId ob, tt_contextId = ob_contextId ob, tt_state = ob_state ob,
           tt_lastUpdated = ob_now ob, tt_createdAt = ob_now ob,
           tt_message = ob_message ob\<rparr> # existingTasks)"

definition trackTask :: "string \<Rightarrow> task_observation \<Rightarrow> app_state \<Rightarrow> app_state" where
  "trackTask agentId ob s =
     s\<lparr>trackedTasksByAgent := (trackedTasksByAgent s)(agentId \<mapsto>
          upsertTrackedTask ob (listOf (trackedTasksByAgent s) agentId))\<rparr>"

text \<open>
  The sighting in a streaming frame (\<^verbatim>\<open>parsed\<close>) or in the payload of a non-streaming
  response (\<^verbatim>\<open>responseRecord\<close>): there is one when both the \<^verbatim>\<open>id\<close> and \<^verbatim>\<open>status.state\<close>
  are truthy.
\<close>

definition payloadObservation :: "json \<Rightarrow> string \<Rightarrow> task_observation option" where
  "payloadObservation payload now =
     (let eventContextId = jsGet payload ''contextId'';
          eventTaskId = jsGet payload ''id'';
          eventStatus = jsGet payload ''status'';
          eventState = jsGet eventStatus ''state''
      in if truthy eventTaskId \<and> truthy eventState
         then Some \<lparr>ob_taskId = eventTaskId, ob_contextId = eventContextId,
                    ob_state = eventState,
                    ob_message = (case jsGet eventStatus ''message'' of
                                    JStr m \<Rightarrow> Some m | _ \<Rightarrow> None),
                    ob_now = now\<rparr>
         else None)"


definition trackMaybe :: "string \<Rightarrow> task_observation option \<Rightarrow> app_state \<Rightarrow> app_state" where
  "trackMaybe agentId ob s = (case ob of Some seen \<Rightarrow> trackTask agentId seen s | None \<Rightarrow> s)"

text \<open>
  The context id and the active task id, updated from a frame or a response payload in
  the same way at both places.
\<close>

definition updateContextId :: "string \<Rightarrow> json \<Rightarrow> app_state \<Rightarrow> app_state" where
  "updateContextId agentId payload s =
     (let eventContextId = jsGet payload ''contextId'' in
      if truthy eventContextId
      then s\<lparr>contextIdByAgent := (contextIdByAgent s)(agentId \<mapsto> eventContextId)\<rparr>
      else s)"

definition updateActiveTask :: "string \<Rightarrow> json \<Rightarrow> app_state \<Rightarrow> app_state" where
  "updateActiveTask agentId payload s =
     (let eventTaskId = jsGet payload ''id'';
          eventState = jsGet (jsGet payload ''status'') ''state''
      in if truthy eventTaskId \<and> eventState = JStr ''input-required''
         then s\<lparr>taskIdByAgent := (taskIdByAgent s)(agentId \<mapsto> eventTaskId)\<rparr>
         else if eventState = JStr ''completed'' \<or> eventState = JStr ''failed''
                 \<or> eventState = JStr ''canceled''
         then s\<lparr>taskIdByAgent := (taskIdByAgent s)(agentId := None)\<rparr>
         else s)"

definition bookkeeping :: "string \<Rightarrow> json \<Rightarrow> string \<Rightarrow> app_state \<Rightarrow> app_state" where
  "bookkeeping agentId payload now s =
     updateActiveTask agentId payload
       (trackMaybe agentId (payloadObservation payload now)
          (updateContextId agentId payload s))"

subsection \<open>Fetching a task\<close>




section \<open>Auth header builder\<close>

text \<open>
  A header map is a list of name/value pairs in insertion order. \<open>setHeader\<close> is the
  assignment \<^verbatim>\<open>headers[k] = v\<close>, \<open>assignHeaders\<close> is \<^verbatim>\<open>Object.assign\<close> and the object
  spread \<^verbatim>\<open>{...base, ...extra}\<close>.
\<close>

type_synonym headers = "(string \<times> string) list"

definition setHeader :: "string \<Rightarrow> string \<Rightarrow> headers \<Rightarrow> headers" where
  "setHeader k v hs =
     (if k \<in> fst ` set hs then map (\<lambda>(k', v'). if k' = k then (k', v) else (k', v')) hs
      else hs @ [(k, v)])"

definition assignHeaders :: "headers \<Rightarrow> headers \<Rightarrow> headers" where
  "assignHeaders base extra = foldl (\<lambda>hs (k, v). setHeader k v hs) base extra"

text \<open>\<^verbatim>\<open>buildAuthHeaders\<close> of \<^verbatim>\<open>lib/a2a/schema.ts\<close>.\<close>

definition buildAuthHeaders :: "agent_auth_config option \<Rightarrow> headers" where
  "buildAuthHeaders auth =
     (case auth of
        None \<Rightarrow> []
      | Some a \<Rightarrow>
          (case auth_kind a of
             AuthNone \<Rightarrow> []
           | AuthBearer \<Rightarrow>
               (case token a of
                  Some t \<Rightarrow> if t \<noteq> [] then [(''Authorization'', ''Bearer '' @ t)] else []
                | None \<Rightarrow> [])
           | AuthApiKey \<Rightarrow>
               (case (apiKeyHeader a, apiKeyValue a) of
                  (Some h, Some v) \<Rightarrow> if h \<noteq> [] \<and> v \<noteq> [] then [(h, v)] else []
                | _ \<Rightarrow> [])
           | AuthCustom \<Rightarrow>
               (case customHeaders a of
                  Some hs \<Rightarrow> assignHeaders [] hs
                | None \<Rightarrow> [])))"

text \<open>\<^verbatim>\<open>getAuthTokenForSdk\<close>: the bearer token, or the empty string.\<close>

definition getAuthTokenForSdk :: "agent_auth_config option \<Rightarrow> string" where
  "getAuthTokenForSdk auth =
     (case auth of
        None \<Rightarrow> []
      | Some a \<Rightarrow>
          if auth_kind a = AuthNone then []
          else if auth_kind a = AuthBearer
          then (case token a of Some t \<Rightarrow> t | None \<Rightarrow> [])
          else [])"

section \<open>Sending a message\<close>

text \<open>
  What \<^verbatim>\<open>handleSendMessage\<close> draws from its environment while it runs: the random ids
  (\<^verbatim>\<open>crypto.randomUUID()\<close>) and the clock readings, in the order of the source. The last
  four are what the \<^verbatim>\<open>catch\<close> block of the non-streaming exchange draws when the \<^verbatim>\<open>try\<close>
  block had drawn its completion time, duration and reply id before it threw.
\<close>

record send_env =
  env_messageId :: string
  env_requestId :: string
  env_userMessageId :: string
  env_timestamp :: string
  env_rpcLogId :: string
  env_assistantMessageId :: string
  env_placeholderTimestamp :: string
  env_trackedAt :: string
  env_replyMessageId :: string
  env_replyTimestamp :: string
  env_completedAt :: string
  env_durationMs :: int
  env_caughtAt :: string
  env_caughtDurationMs :: int
  env_caughtMessageId :: string
  env_caughtTimestamp :: string

text \<open>
  The body posted to the dashboard's own routes \<^verbatim>\<open>/api/agents/stream\<close> and
  \<^verbatim>\<open>/api/agents/rpc\<close>. A field that is \<^verbatim>\<open>undefined\<close> is left out by \<^verbatim>\<open>JSON.stringify\<close>.
  The rpc route also reads a field \<^verbatim>\<open>streaming\<close>, which the page never sends.
\<close>

record route_request =
  rq_cardUrl :: "string option"
  rq_endpointUrl :: "string option"
  rq_method :: "string option"
  rq_params :: json
  rq_streaming :: "bool option"
  rq_auth :: "agent_auth_config option"

datatype transport = ViaStream | ViaRpc

record dispatch =
  dp_agentId :: string
  dp_transport :: transport
  dp_endpointUrl :: string
  dp_payload :: json
  dp_requestHeaders :: headers
  dp_body :: route_request

text \<open>
  \<^verbatim>\<open>endpointOverrideByAgent[id]?.trim() || baseEndpoint || undefined\<close> with
  \<^verbatim>\<open>baseEndpoint = endpointByAgent[id] ?? endpoints[0]?.url\<close>; \<open>None\<close> is a falsy result.
\<close>

definition nonEmpty :: "string option \<Rightarrow> string option" where
  "nonEmpty v = (case v of Some x \<Rightarrow> if x \<noteq> [] then Some x else None | None \<Rightarrow> None)"

definition chosenEndpoint :: "agent_card \<Rightarrow> app_state \<Rightarrow> string option" where
  "chosenEndpoint agent s =
     (let baseEndpoint =
            (case endpointByAgent s (card_id agent) of
               Some e \<Rightarrow> Some e
             | None \<Rightarrow> (case endpoints agent of ep # _ \<Rightarrow> Some (ep_url ep) | [] \<Rightarrow> None))
      in case nonEmpty (map_option trim (endpointOverrideByAgent s (card_id agent))) of
           Some override \<Rightarrow> Some override
         | None \<Rightarrow> nonEmpty baseEndpoint)"

definition chosenMethod :: "agent_card \<Rightarrow> app_state \<Rightarrow> string" where
  "chosenMethod agent s =
     (case nonEmpty (methodByAgent s (card_id agent)) of
        Some m \<Rightarrow> m
      | None \<Rightarrow> DEFAULT_METHOD)"

text \<open>\<^verbatim>\<open>record[id]\<close> of a map of JSON values: \<^verbatim>\<open>undefined\<close> when the key is missing.\<close>

definition valueOf :: "(string \<rightharpoonup> json) \<Rightarrow> string \<Rightarrow> json" where
  "valueOf m k = (case m k of Some v \<Rightarrow> v | None \<Rightarrow> JUndef)"

definition buildMessagePayload :: "send_env \<Rightarrow> string \<Rightarrow> json \<Rightarrow> json" where
  "buildMessagePayload env messageText existingContextId =
     JObj ([(''messageId'', JStr (env_messageId env)),
            (''role'', JStr ''user''),
            (''kind'', JStr ''message''),
            (''parts'', JArr [JObj [(''kind'', JStr ''text''), (''text'', JStr messageText)]])]
           @ (if truthy existingContextId then [(''contextId'', existingContextId)] else []))"

definition buildRequestParams :: "json \<Rightarrow> json \<Rightarrow> json" where
  "buildRequestParams messagePayload existingTaskId =
     JObj ([(''message'', messagePayload)]
           @ (if truthy existingTaskId then [(''id'', existingTaskId)] else []))"

definition appendMessage :: "string \<Rightarrow> chat_message \<Rightarrow> app_state \<Rightarrow> app_state" where
  "appendMessage agentId m s =
     s\<lparr>messagesByAgent := (messagesByAgent s)(agentId \<mapsto>
          listOf (messagesByAgent s) agentId @ [m])\<rparr>"

definition mapMessages :: "string \<Rightarrow> (chat_message \<Rightarrow> chat_message) \<Rightarrow> app_state \<Rightarrow> app_state" where
  "mapMessages agentId f s =
     s\<lparr>messagesByAgent := (messagesByAgent s)(agentId \<mapsto>
          map f (listOf (messagesByAgent s) agentId))\<rparr>"

text \<open>
  The first part of \<^verbatim>\<open>handleSendMessage\<close>, up to the choice of the transport: the checks
  that end the send early, the JSON-RPC envelope, the user message and the request log.
  The result is the state and, when a request is to be made, what is dispatched.
\<close>

definition prepareSend :: "send_env \<Rightarrow> string \<Rightarrow> app_state \<Rightarrow> dispatch option \<times> app_state" where
  "prepareSend env messageText s0 =
     (case selectedAgent s0 of
        None \<Rightarrow> (None, s0)
      | Some agent \<Rightarrow>
          if trim messageText = [] then (None, s0)
          else
            let s = s0\<lparr>chatError := None\<rparr> in
            (case chosenEndpoint agent s of
               None \<Rightarrow>
                 (None, s\<lparr>chatError :=
                    Some ''Select an endpoint or enter a full endpoint URL before chatting.''\<rparr>)
             | Some endpointUrl \<Rightarrow>
                 let method = chosenMethod agent s in
                 if method = ''tasks/get''
                 then (None, s\<lparr>chatError := Some ''Use the Tasks panel to fetch task status.''\<rparr>)
                 else if method \<notin> set SUPPORTED_METHODS
                 then (None, s\<lparr>chatError := Some ''Unsupported JSON-RPC method selected.''\<rparr>)
                 else
                   let forceStreaming = (method = ''message/stream'');
                       existingContextId = valueOf (contextIdByAgent s) (card_id agent);
                       existingTaskId = valueOf (taskIdByAgent s) (card_id agent);
                       messagePayload = buildMessagePayload env messageText existingContextId;
                       requestParams = buildRequestParams messagePayload existingTaskId;
                       payload = JObj [(''jsonrpc'', JStr ''2.0''),
                                       (''id'', JStr (env_requestId env)),
                                       (''method'', JStr method),
                                       (''params'', requestParams)];
                       userMessage =
                         \<lparr>msg_id = env_userMessageId env, msg_role = User,
                          msg_content = messageText, msg_timestamp = env_timestamp env,
                          msg_status = Some Complete, msg_error = None,
                          msg_taskId = JUndef, msg_taskState = JUndef\<rparr>;
                       s1 = appendMessage (card_id agent) userMessage s;
                       supportsStreaming = streaming (capabilities agent);
                       useStreaming = (forceStreaming \<or> supportsStreaming);
                       requestHeaders =
                         assignHeaders
                           [(''Content-Type'', ''application/json''),
                            (''Accept'', if useStreaming \<and> supportsStreaming
                                         then ''text/event-stream'' else ''application/json'')]
                           (buildAuthHeaders (authByAgent s (card_id agent)));
                       requestLog =
                         \<lparr>log_id = env_rpcLogId env, log_endpointUrl = endpointUrl,
                          log_requestPayload = payload,
                          log_requestHeaders = Some requestHeaders,
                          log_responsePayload = JUndef, log_status = JUndef,
                          log_startedAt = env_timestamp env, log_completedAt = None,
                          log_durationMs = None\<rparr>;
                       s2 = s1\<lparr>rpcLogsByAgent := (rpcLogsByAgent s1)(card_id agent \<mapsto>
                                 listOf (rpcLogsByAgent s1) (card_id agent) @ [requestLog]),
                               sending := True\<rparr>;
                       body = \<lparr>rq_cardUrl = nonEmpty (card_url agent),
                               rq_endpointUrl = Some endpointUrl,
                               rq_method = Some method,
                               rq_params = requestParams,
                               rq_streaming = None,
                               rq_auth = authByAgent s (card_id agent)\<rparr>
                   in (Some \<lparr>dp_agentId = card_id agent,
                             dp_transport = (if useStreaming \<and> supportsStreaming
                                             then ViaStream else ViaRpc),
                             dp_endpointUrl = endpointUrl,
                             dp_payload = payload,
                             dp_requestHeaders = requestHeaders,
                             dp_body = body\<rparr>, s2)))"

text \<open>
  The check \<^verbatim>\<open>!selectedAgent.url && !endpointUrl\<close> that follows the endpoint check in the
  source can never hold there (the endpoint is truthy), so it has no branch above.
\<close>

subsection \<open>The streaming exchange\<close>

text \<open>
  A line of the event stream as the page reads it: the \<^verbatim>\<open>[DONE]\<close> sentinel, a
  \<^verbatim>\<open>data: \<close> line whose text \<^verbatim>\<open>JSON.parse\<close> rejects, a \<^verbatim>\<open>data: \<close> line with the value
  parsed from it, or any other line. Each comes with the clock reading of its state
  update. The exchange either reaches the end of the stream, or throws (a failed fetch,
  a response that is not \<^verbatim>\<open>ok\<close>, a failed read) with a message after some lines.
\<close>

datatype sse_line = DataDone | DataMalformed | DataEvent json | OtherLine

datatype stream_result =
    StreamThrew string "(sse_line \<times> string) list"
  | StreamEnded "(sse_line \<times> string) list"

record stream_progress =
  accumulatedContent :: string
  lastEventData :: json
  streamErrorMsg :: "string option"

text \<open>
  The message of a frame's \<^verbatim>\<open>error\<close>; \<open>stringify\<close> is the platform's
  \<^verbatim>\<open>JSON.stringify\<close>.
\<close>

definition frameErrorMessage :: "(json \<Rightarrow> string) \<Rightarrow> json \<Rightarrow> string" where
  "frameErrorMessage stringify err =
     (case err of
        JStr e \<Rightarrow> e
      | _ \<Rightarrow> (case jsGet err ''message'' of JStr m \<Rightarrow> m | _ \<Rightarrow> stringify err))"

text \<open>
  The body of the \<^verbatim>\<open>try\<close> block for one parsed frame. A frame that is \<^verbatim>\<open>null\<close> is stored
  as the last event and then makes \<^verbatim>\<open>parsed.error\<close> throw, which the \<^verbatim>\<open>catch\<close> ignores.
\<close>

definition processFrame ::
  "(json \<Rightarrow> string) \<Rightarrow> string \<Rightarrow> string \<Rightarrow> json \<Rightarrow> string
     \<Rightarrow> stream_progress \<times> app_state \<Rightarrow> stream_progress \<times> app_state" where
  "processFrame stringify agentId assistantMessageId parsed now ps =
     (let p = fst ps; s = snd ps in
      if nullish parsed then (p\<lparr>lastEventData := parsed\<rparr>, s)
      else
        let p1 = p\<lparr>lastEventData := parsed,
                   streamErrorMsg :=
                     (if \<not> nullish (jsGet parsed ''error'')
                      then Some (frameErrorMessage stringify (jsGet parsed ''error''))
                      else streamErrorMsg p)\<rparr>;
            s1 = bookkeeping agentId parsed now s;
            contentParts = taskContentParts parsed;
            p2 = (if jsGet parsed ''kind'' = JStr ''message'' \<and> isArray (jsGet parsed ''parts'')
                  then (case truthyText (elems (jsGet parsed ''parts'')) of
                          Some text \<Rightarrow> p1\<lparr>accumulatedContent := text\<rparr>
                        | None \<Rightarrow> p1)
                  else if jsGet parsed ''kind'' = JStr ''task'' \<and> contentParts \<noteq> []
                  then p1\<lparr>accumulatedContent := concat contentParts\<rparr>
                  else p1);
            s2 = (if \<not> (jsGet parsed ''kind'' = JStr ''message'' \<and> isArray (jsGet parsed ''parts''))
                     \<and> jsGet parsed ''kind'' = JStr ''task''
                  then mapMessages agentId
                         (\<lambda>msg. if msg_id msg = assistantMessageId
                                then msg\<lparr>msg_taskId := jsGet parsed ''id'',
                                         msg_taskState := jsGet (jsGet parsed ''status'') ''state''\<rparr>
                                else msg) s1
                  else s1);
            s3 = (if accumulatedContent p2 \<noteq> []
                  then mapMessages agentId
                         (\<lambda>msg. if msg_id msg = assistantMessageId
                                then msg\<lparr>msg_content := accumulatedContent p2\<rparr>
                                else msg) s2
                  else s2)
        in (p2, s3))"

definition processLine ::
  "(json \<Rightarrow> string) \<Rightarrow> string \<Rightarrow> string
     \<Rightarrow> stream_progress \<times> app_state \<Rightarrow> sse_line \<times> string \<Rightarrow> stream_progress \<times> app_state" where
  "processLine stringify agentId assistantMessageId ps line =
     (case fst line of
        DataEvent parsed \<Rightarrow>
          processFrame stringify agentId assistantMessageId parsed (snd line) ps
      | _ \<Rightarrow> ps)"

definition linesOf :: "stream_result \<Rightarrow> (sse_line \<times> string) list" where
  "linesOf r = (case r of StreamThrew _ ls \<Rightarrow> ls | StreamEnded ls \<Rightarrow> ls)"

text \<open>The \<^verbatim>\<open>catch\<close> block of the streaming exchange.\<close>

definition failStream :: "string \<Rightarrow> string \<Rightarrow> string \<Rightarrow> app_state \<Rightarrow> app_state" where
  "failStream agentId assistantMessageId errorMessage s =
     mapMessages agentId
       (\<lambda>msg. if msg_id msg = assistantMessageId
              then msg\<lparr>msg_content := ''Error: '' @ errorMessage,
                       msg_status := Some Error, msg_error := Some errorMessage\<rparr>
              else msg)
       (s\<lparr>chatError := Some errorMessage\<rparr>)"

text \<open>
  The end of the stream: whether the exchange counts as failed (\<^verbatim>\<open>isError\<close>) and what is
  displayed (\<^verbatim>\<open>displayContent\<close>); then the message is finalized and the log completed.
  \<^verbatim>\<open>extractResponseText\<close> is called only when no content was accumulated; when it throws,
  there is no outcome and the \<^verbatim>\<open>catch\<close> block runs.
\<close>

definition streamOutcome :: "(json \<Rightarrow> string) \<Rightarrow> stream_progress \<Rightarrow> (bool \<times> string) option" where
  "streamOutcome formatJson p =
     (case (if accumulatedContent p \<noteq> [] then Some (accumulatedContent p)
            else extractResponseText formatJson (lastEventData p)) of
        None \<Rightarrow> None
      | Some finalContent \<Rightarrow>
          let isError = (streamErrorMsg p \<noteq> None
                         \<or> (truthy (lastEventData p)
                             \<and> \<not> nullish (jsGet (lastEventData p) ''error''))
                         \<or> truthySummary (lastEventData p) \<noteq> None);
              displayContent = (case streamErrorMsg p of Some m \<Rightarrow> m | None \<Rightarrow> finalContent)
          in Some (isError, displayContent))"

definition finishStream ::
  "send_env \<Rightarrow> string \<Rightarrow> stream_progress \<Rightarrow> bool \<Rightarrow> string \<Rightarrow> app_state \<Rightarrow> app_state" where
  "finishStream env agentId p isError displayContent s =
     (let s1 = s\<lparr>chatError := (if isError \<and> displayContent \<noteq> []
                                then Some displayContent else chatError s)\<rparr>;
          s2 = mapMessages agentId
                 (\<lambda>msg. if msg_id msg = env_assistantMessageId env
                        then msg\<lparr>msg_content := displayContent,
                                 msg_status := Some (if isError then Error else Complete),
                                 msg_error := (if isError then Some displayContent else None)\<rparr>
                        else msg) s1
      in s2\<lparr>rpcLogsByAgent := (rpcLogsByAgent s2)(agentId \<mapsto>
               map (\<lambda>log. if log_id log = env_rpcLogId env
                          then log\<lparr>log_responsePayload := lastEventData p,
                                   log_completedAt := Some (env_completedAt env),
                                   log_durationMs := Some (env_durationMs env)\<rparr>
                          else log)
                 (listOf (rpcLogsByAgent s2) agentId))\<rparr>)"

definition finalizeStream ::
  "(json \<Rightarrow> string) \<Rightarrow> send_env \<Rightarrow> string \<Rightarrow> stream_progress \<Rightarrow> app_state \<Rightarrow> app_state" where
  "finalizeStream formatJson env agentId p s =
     (case streamOutcome formatJson p of
        None \<Rightarrow> failStream agentId (env_assistantMessageId env) TO_PRIMITIVE_ERROR s
      | Some outcome \<Rightarrow> finishStream env agentId p (fst outcome) (snd outcome) s)"

definition runStreaming ::
  "(json \<Rightarrow> string) \<Rightarrow> (json \<Rightarrow> string) \<Rightarrow> send_env \<Rightarrow> dispatch \<Rightarrow> stream_result
     \<Rightarrow> app_state \<Rightarrow> app_state" where
  "runStreaming stringify formatJson env d result s0 =
     (let agentId = dp_agentId d;
          assistantMessageId = env_assistantMessageId env;
          streamingMessage =
            \<lparr>msg_id = assistantMessageId, msg_role = Assistant, msg_content = '''',
             msg_timestamp = env_placeholderTimestamp env, msg_status = Some Streaming,
             msg_error = None, msg_taskId = JUndef, msg_taskState = JUndef\<rparr>;
          s1 = appendMessage agentId streamingMessage s0;
          ps = foldl (processLine stringify agentId assistantMessageId)
                 (\<lparr>accumulatedContent = '''', lastEventData = JNull, streamErrorMsg = None\<rparr>, s1)
                 (linesOf result)
      in
      (case result of
         StreamThrew errorMessage _ \<Rightarrow>
           failStream agentId assistantMessageId errorMessage (snd ps)
       | StreamEnded _ \<Rightarrow> finalizeStream formatJson env agentId (fst ps) (snd ps))
        \<lparr>sending := False\<rparr>)"

subsection \<open>The non-streaming exchange\<close>

text \<open>
  The exchange with \<^verbatim>\<open>/api/agents/rpc\<close> either throws with a message (a failed fetch, a
  body that is not JSON) or yields the response object, given by its fields.
\<close>

datatype rpc_result = RpcThrew string | RpcData "(string \<times> json) list"

text \<open>
  The log update of both outcomes: the entry of this request is completed, and an entry is
  pushed when none has its id. \<open>status\<close> is \<^verbatim>\<open>data.status\<close>, set on success only.
\<close>

definition completeLog ::
  "send_env \<Rightarrow> dispatch \<Rightarrow> json \<Rightarrow> json option \<Rightarrow> headers \<Rightarrow> app_state \<Rightarrow> app_state" where
  "completeLog env d responsePayload status authHeaders s =
     (let existing = listOf (rpcLogsByAgent s) (dp_agentId d);
          updated =
            map (\<lambda>log. if log_id log = env_rpcLogId env
                       then log\<lparr>log_responsePayload := responsePayload,
                                log_status := (case status of Some st \<Rightarrow> st
                                               | None \<Rightarrow> log_status log),
                                log_completedAt := Some (env_completedAt env),
                                log_durationMs := Some (env_durationMs env)\<rparr>
                       else log) existing;
          pushed =
            (if \<not> (\<exists>log \<in> set updated. log_id log = env_rpcLogId env)
             then updated @
                  [\<lparr>log_id = env_rpcLogId env, log_endpointUrl = dp_endpointUrl d,
                    log_requestPayload = dp_payload d,
                    log_requestHeaders =
                      Some (assignHeaders [(''Content-Type'', ''application/json''),
                                           (''Accept'', ''application/json'')] authHeaders),
                    log_responsePayload = responsePayload,
                    log_status = (case status of Some st \<Rightarrow> st | None \<Rightarrow> JUndef),
                    log_startedAt = env_timestamp env,
                    log_completedAt = Some (env_completedAt env),
                    log_durationMs = Some (env_durationMs env)\<rparr>]
             else updated)
      in s\<lparr>rpcLogsByAgent := (rpcLogsByAgent s)(dp_agentId d \<mapsto> pushed)\<rparr>)"

text \<open>The \<^verbatim>\<open>catch\<close> block of the non-streaming exchange.\<close>

definition failRpc :: "send_env \<Rightarrow> dispatch \<Rightarrow> headers \<Rightarrow> string \<Rightarrow> app_state \<Rightarrow> app_state" where
  "failRpc env d authHeaders errorMessage s =
     (let responsePayload = JObj [(''error'', JStr errorMessage)];
          s1 = completeLog env d responsePayload None authHeaders s;
          assistantMessage =
            \<lparr>msg_id = env_replyMessageId env, msg_role = Assistant,
             msg_content = ''Request failed: '' @ errorMessage,
             msg_timestamp = env_replyTimestamp env,
             msg_status = Some Error, msg_error = Some errorMessage,
             msg_taskId = JUndef, msg_taskState = JUndef\<rparr>
      in appendMessage (dp_agentId d) assistantMessage (s1\<lparr>chatError := Some errorMessage\<rparr>))"

text \<open>The readings of a \<^verbatim>\<open>catch\<close> block that runs after the \<^verbatim>\<open>try\<close> block took its own.\<close>

definition caughtEnv :: "send_env \<Rightarrow> send_env" where
  "caughtEnv env =
     env\<lparr>env_completedAt := env_caughtAt env, env_durationMs := env_caughtDurationMs env,
         env_replyMessageId := env_caughtMessageId env,
         env_replyTimestamp := env_caughtTimestamp env\<rparr>"

text \<open>
  The exchange itself. When \<^verbatim>\<open>extractResponseText\<close> throws, the log, the context id, the
  tracked task, the active task id and the chat error have been updated already, and the
  \<^verbatim>\<open>catch\<close> block runs on top of that.
\<close>

definition runRpc ::
  "(json \<Rightarrow> string) \<Rightarrow> send_env \<Rightarrow> dispatch \<Rightarrow> rpc_result \<Rightarrow> app_state \<Rightarrow> app_state" where
  "runRpc formatJson env d result s0 =
     (let agentId = dp_agentId d;
          authHeaders = buildAuthHeaders (authByAgent s0 agentId)
      in
      (case result of
         RpcData entries \<Rightarrow>
           let data = JObj entries;
               s1 = completeLog env d data (Some (jsGet data ''status'')) authHeaders s0;
               responsePayload = js_coalesce (jsGet data ''data'') data;
               s2 = bookkeeping agentId responsePayload (env_trackedAt env) s1;
               errorSummary = truthySummary responsePayload;
               s3 = s2\<lparr>chatError := (case errorSummary of
                                         Some e \<Rightarrow> Some e
                                       | None \<Rightarrow> chatError s2)\<rparr>
           in (case extractResponseText formatJson responsePayload of
                 Some content \<Rightarrow>
                   appendMessage agentId
                     \<lparr>msg_id = env_replyMessageId env, msg_role = Assistant,
                      msg_content = content,
                      msg_timestamp = env_replyTimestamp env,
                      msg_status = Some (if errorSummary \<noteq> None then Error else Complete),
                      msg_error = errorSummary,
                      msg_taskId = JUndef, msg_taskState = JUndef\<rparr> s3
               | None \<Rightarrow> failRpc (caughtEnv env) d authHeaders TO_PRIMITIVE_ERROR s3)
       | RpcThrew errorMessage \<Rightarrow> failRpc env d authHeaders errorMessage s0)
        \<lparr>sending := False\<rparr>)"

subsection \<open>The whole send, and retry\<close>

text \<open>
  \<^verbatim>\<open>handleSendMessage\<close>. The two routes are functions from the posted body to what the
  exchange met; the state updates of one send are applied in the order the source queues
  them.
\<close>

definition handleSendMessage ::
  "(json \<Rightarrow> string) \<Rightarrow> (json \<Rightarrow> string) \<Rightarrow> (route_request \<Rightarrow> stream_result)
     \<Rightarrow> (route_request \<Rightarrow> rpc_result) \<Rightarrow> send_env \<Rightarrow> string \<Rightarrow> app_state \<Rightarrow> app_state" where
  "handleSendMessage stringify formatJson streamRoute rpcRoute env messageText s =
     (case prepareSend env messageText s of
        (None, s1) \<Rightarrow> s1
      | (Some d, s1) \<Rightarrow>
          (case dp_transport d of
             ViaStream \<Rightarrow> runStreaming stringify formatJson env d (streamRoute (dp_body d)) s1
           | ViaRpc \<Rightarrow> runRpc formatJson env d (rpcRoute (dp_body d)) s1))"

text \<open>
  \<^verbatim>\<open>handleRetry\<close>. The loop \<^verbatim>\<open>for (i = errorIndex - 1; i >= 0; i--)\<close> is \<open>find\<close> on the
  reversed messages before the failed one. The state update that removes the failed
  message writes the filtered list of the messages the handler read; the send that
  follows appends to it.
\<close>

definition handleRetry ::
  "(json \<Rightarrow> string) \<Rightarrow> (json \<Rightarrow> string) \<Rightarrow> (route_request \<Rightarrow> stream_result)
     \<Rightarrow> (route_request \<Rightarrow> rpc_result) \<Rightarrow> send_env \<Rightarrow> string \<Rightarrow> app_state \<Rightarrow> app_state" where
  "handleRetry stringify formatJson streamRoute rpcRoute env errorMessageId s =
     (case selectedAgent s of
        None \<Rightarrow> s
      | Some agent \<Rightarrow>
          let messages = listOf (messagesByAgent s) (card_id agent) in
          (case findIndex (\<lambda>m. msg_id m = errorMessageId) messages of
             None \<Rightarrow> s
           | Some errorIndex \<Rightarrow>
               let userMessageContent =
                     (case find (\<lambda>m. msg_role m = User) (rev (take errorIndex messages)) of
                        Some m \<Rightarrow> msg_content m
                      | None \<Rightarrow> '''')
               in if userMessageContent = [] then s
                  else handleSendMessage stringify formatJson streamRoute rpcRoute env
                         userMessageContent
                         (s\<lparr>messagesByAgent := (messagesByAgent s)(card_id agent \<mapsto>
                               filter (\<lambda>m. msg_id m \<noteq> errorMessageId) messages)\<rparr>)))"

subsection \<open>Sequences of sightings\<close>





subsection \<open>Example exchanges\<close>

definition exampleEnv :: send_env where
  "exampleEnv =
     \<lparr>env_messageId = ''m-2'', env_requestId = ''r-2'', env_userMessageId = ''u2'',
      env_timestamp = ''2026-01-01T00:01:00.000Z'', env_rpcLogId = ''l2'',
      env_assistantMessageId = ''a2'',
      env_placeholderTimestamp = ''2026-01-01T00:01:00.001Z'',
      env_trackedAt = ''2026-01-01T00:01:01.000Z'',
      env_replyMessageId = ''a3'', env_replyTimestamp = ''2026-01-01T00:01:01.001Z'',
      env_completedAt = ''2026-01-01T00:01:01.000Z'', env_durationMs = 1000,
      env_caughtAt = ''2026-01-01T00:01:01.002Z'', env_caughtDurationMs = 1002,
      env_caughtMessageId = ''a4'', env_caughtTimestamp = ''2026-01-01T00:01:01.002Z''\<rparr>"

text \<open>A task frame or response payload with the given state, for task \<^verbatim>\<open>t1\<close>.\<close>

definition taskPayload :: "string \<Rightarrow> json" where
  "taskPayload state =
     JObj [(''kind'', JStr ''task''), (''id'', JStr ''t1''), (''contextId'', JStr ''c1''),
           (''status'', JObj [(''state'', JStr state)])]"

text \<open>Routes that answer every request with a completed task, and with a network failure.\<close>

definition completedReply :: "route_request \<Rightarrow> rpc_result" where
  "completedReply body =
     RpcData [(''ok'', JBool True), (''status'', JNum ''200''), (''data'', taskPayload ''completed''),
              (''streaming'', JBool False)]"

definition completedStream :: "route_request \<Rightarrow> stream_result" where
  "completedStream body =
     StreamEnded [(DataEvent (taskPayload ''completed''), ''2026-01-01T00:01:01.000Z''),
                  (DataDone, ''2026-01-01T00:01:01.000Z'')]"

section \<open>Agent card normalizer\<close>

text \<open>The helpers of \<^verbatim>\<open>lib/a2a/schema.ts\<close>. \<open>asRecord\<close> yields \<open>None\<close> for the source's \<^verbatim>\<open>null\<close>.\<close>

definition DEFAULT_PROTOCOL :: string where
  "DEFAULT_PROTOCOL = ''jsonrpc''"

fun asRecord :: "json \<Rightarrow> json option" where
  "asRecord (JObj kvs) = Some (JObj kvs)"
| "asRecord _ = None"

fun asString :: "json \<Rightarrow> string" where
  "asString (JStr s) = trim s"
| "asString _ = ''''"

text \<open>\<^verbatim>\<open>a || b\<close> on strings.\<close>

definition orElse :: "string \<Rightarrow> string \<Rightarrow> string" where
  "orElse a b = (if a \<noteq> [] then a else b)"

text \<open>\<^verbatim>\<open>array.filter((e) => typeof e === "string")\<close>.\<close>

definition stringsOf :: "json list \<Rightarrow> string list" where
  "stringsOf xs = List.map_filter (\<lambda>v. case v of JStr s \<Rightarrow> Some s | _ \<Rightarrow> None) xs"

text \<open>
  An optional array field filtered to its strings, and \<^verbatim>\<open>xs?.length ? xs : undefined\<close>.
\<close>

definition stringArray :: "json \<Rightarrow> string list option" where
  "stringArray v = (if isArray v then Some (stringsOf (elems v)) else None)"

definition nonEmptyList :: "string list option \<Rightarrow> string list option" where
  "nonEmptyList v = (case v of Some xs \<Rightarrow> if xs \<noteq> [] then Some xs else None | None \<Rightarrow> None)"

text \<open>
  The records among the entries of an array, each with a protocol hint; then the endpoint
  candidates of a card. \<open>toLowerCase\<close> is the platform's \<^verbatim>\<open>String.prototype.toLowerCase\<close>,
  taken as a parameter.
\<close>

definition recordsWithHint :: "string \<Rightarrow> json list \<Rightarrow> (json \<times> string) list" where
  "recordsWithHint hint entries =
     List.map_filter (\<lambda>entry. map_option (\<lambda>record. (record, hint)) (asRecord entry)) entries"

definition collectEndpointCandidates ::
  "(string \<Rightarrow> string) \<Rightarrow> json \<Rightarrow> (json \<times> string) list" where
  "collectEndpointCandidates toLowerCase cardRecord =
     (let endpointsField = jsGet cardRecord ''endpoints'';
          preferredTransport = toLowerCase (asString (jsGet cardRecord ''preferredTransport''));
          protocolHint = orElse preferredTransport DEFAULT_PROTOCOL;
          fromEndpoints =
            (if isArray endpointsField then recordsWithHint protocolHint (elems endpointsField)
             else if truthy endpointsField \<and> typeof_object endpointsField
             then concat (map (\<lambda>key. let v = jsGet endpointsField key in
                                       if isArray v then recordsWithHint key (elems v) else [])
                              [''jsonrpc'', ''rpc'', ''http''])
             else []);
          fromEndpoint =
            (case asRecord (jsGet cardRecord ''endpoint'') of
               Some endpoint \<Rightarrow> [(endpoint, protocolHint)]
             | None \<Rightarrow> []);
          rootUrl = asString (jsGet cardRecord ''url'');
          fromUrl =
            (if rootUrl \<noteq> []
             then [(JObj [(''url'', JStr rootUrl),
                          (''name'', JStr (orElse (asString (jsGet cardRecord ''name'')) ''Agent URL'')),
                          (''protocol'', JStr protocolHint)], protocolHint)]
             else [])
      in fromEndpoints @ fromEndpoint @ fromUrl)"

text \<open>
  One skill entry: a bare string, or a record with a usable name; anything else is
  skipped.
\<close>

definition normalizeSkill :: "json \<Rightarrow> agent_skill option" where
  "normalizeSkill entry =
     (case entry of
        JStr s \<Rightarrow>
          if trim s \<noteq> []
          then Some \<lparr>skill_name = trim s, skill_id = None, skill_description = None,
                     skill_examples = None, skill_tags = None, skill_inputModes = None,
                     skill_outputModes = None\<rparr>
          else None
      | _ \<Rightarrow>
          (case asRecord entry of
             None \<Rightarrow> None
           | Some record \<Rightarrow>
               let skillName = asString (js_or (jsGet record ''name'') (jsGet record ''title'')) in
               if skillName = [] then None
               else Some \<lparr>skill_name = skillName,
                          skill_id = nonEmpty (Some (asString (jsGet record ''id''))),
                          skill_description =
                            nonEmpty (Some (asString (jsGet record ''description''))),
                          skill_examples = nonEmptyList (stringArray (jsGet record ''examples'')),
                          skill_tags = nonEmptyList (stringArray (jsGet record ''tags'')),
                          skill_inputModes =
                            nonEmptyList (stringArray (jsGet record ''inputModes'')),
                          skill_outputModes =
                            nonEmptyList (stringArray (jsGet record ''outputModes''))\<rparr>))"

text \<open>
  One endpoint candidate at its (zero-based) index: an error message or an endpoint.
  \<open>validateUrl\<close> is the platform's URL parser (\<^verbatim>\<open>new URL(value)\<close> does not throw), taken
  as a parameter.
\<close>

definition normalizeEndpoint ::
  "(string \<Rightarrow> bool) \<Rightarrow> nat \<Rightarrow> json \<times> string \<Rightarrow> string + agent_endpoint" where
  "normalizeEndpoint validateUrl index candidate =
     (let entry = fst candidate; protocolHint = snd candidate;
          url = asString (js_or (js_or (jsGet entry ''url'') (jsGet entry ''href''))
                                (jsGet entry ''endpoint''))
      in if url = [] then Inl (''Endpoint '' @ string_of_nat (index + 1) @ '' is missing a url.'')
         else if \<not> validateUrl url
         then Inl (''Endpoint '' @ string_of_nat (index + 1) @ '' has an invalid url.'')
         else
           let protocol = asString (js_or (js_or (jsGet entry ''protocol'') (jsGet entry ''type''))
                                          (jsGet entry ''transport''));
               nameValue = asString (js_or (jsGet entry ''name'') (jsGet entry ''id''))
           in Inr \<lparr>ep_id = orElse protocol protocolHint @ ''-'' @ string_of_nat (index + 1),
                    ep_name = orElse nameValue (''Endpoint '' @ string_of_nat (index + 1)),
                    ep_url = url,
                    ep_protocol = orElse (orElse protocol protocolHint) DEFAULT_PROTOCOL\<rparr>)"

text \<open>The left and the right results of a list, each in order.\<close>

definition lefts :: "('a + 'b) list \<Rightarrow> 'a list" where
  "lefts xs = List.map_filter (\<lambda>x. case x of Inl a \<Rightarrow> Some a | Inr _ \<Rightarrow> None) xs"

definition rights :: "('a + 'b) list \<Rightarrow> 'b list" where
  "rights xs = List.map_filter (\<lambda>x. case x of Inl _ \<Rightarrow> None | Inr b \<Rightarrow> Some b) xs"

text \<open>
  \<^verbatim>\<open>normalizeAgentCard\<close>: the errors (\<open>Inl\<close>), or the card. The source URL is optional.
\<close>

definition normalizeAgentCard ::
  "(string \<Rightarrow> string) \<Rightarrow> (string \<Rightarrow> bool) \<Rightarrow> json \<Rightarrow> string option
     \<Rightarrow> string list + agent_card" where
  "normalizeAgentCard toLowerCase validateUrl input sourceUrl =
     (case asRecord input of
        None \<Rightarrow> Inl [''Agent card payload must be an object.'']
      | Some cardRecord \<Rightarrow>
          let name = asString (jsGet cardRecord ''name'');
              description = asString (jsGet cardRecord ''description'');
              version = asString (jsGet cardRecord ''version'');
              nameErrors = (if name = [] then [''Missing required field: name.''] else []);
              skillEntries = (if isArray (jsGet cardRecord ''skills'')
                              then elems (jsGet cardRecord ''skills'') else []);
              normalizedSkills = List.map_filter normalizeSkill skillEntries;
              endpointCandidates = collectEndpointCandidates toLowerCase cardRecord;
              results = map (\<lambda>(index, candidate). normalizeEndpoint validateUrl index candidate)
                          (enumerate 0 endpointCandidates);
              normalizedEndpoints = rights results;
              errors = nameErrors @ lefts results
                       @ (if normalizedEndpoints = [] then [''No endpoints found in card.''] else [])
          in if errors \<noteq> [] then Inl errors
             else
               let idValue = asString (js_or (js_or (js_or (jsGet cardRecord ''id'') (jsGet cardRecord ''agentId''))
                                 (case sourceUrl of Some u \<Rightarrow> JStr u | None \<Rightarrow> JUndef))
                                 (JStr name));
                   protocolVersion = asString (jsGet cardRecord ''protocolVersion'');
                   capabilitiesRecord = asRecord (jsGet cardRecord ''capabilities'');
                   flag = (\<lambda>key. case capabilitiesRecord of
                                    Some r \<Rightarrow> jsGet r key = JBool True
                                  | None \<Rightarrow> False);
                   provider =
                     (case asRecord (jsGet cardRecord ''provider'') of
                        Some providerRecord \<Rightarrow>
                          Some \<lparr>organization =
                                  nonEmpty (Some (asString (jsGet providerRecord ''organization''))),
                                provider_url =
                                  nonEmpty (Some (asString (jsGet providerRecord ''url'')))\<rparr>
                      | None \<Rightarrow> None)
               in Inr \<lparr>card_id = orElse idValue name,
                        card_name = name,
                        card_description = nonEmpty (Some description),
                        card_version = nonEmpty (Some version),
                        card_protocolVersion = nonEmpty (Some protocolVersion),
                        card_url = sourceUrl,
                        card_provider =
                          (case provider of
                             Some p \<Rightarrow>
                               if organization p \<noteq> None \<or> provider_url p \<noteq> None
                               then Some p else None
                           | None \<Rightarrow> None),
                        defaultInputModes =
                          nonEmptyList (stringArray (jsGet cardRecord ''defaultInputModes'')),
                        defaultOutputModes =
                          nonEmptyList (stringArray (jsGet cardRecord ''defaultOutputModes'')),
                        skills = normalizedSkills,
                        endpoints = normalizedEndpoints,
                        capabilities =
                          \<lparr>streaming = flag ''streaming'',
                           pushNotifications = flag ''pushNotifications'',
                           stateTransitionHistory = flag ''stateTransitionHistory''\<rparr>,
                        raw = input\<rparr>)"

text \<open>
  Stand-ins for the URL parser and for \<^verbatim>\<open>toLowerCase\<close> on the examples: the first accepts
  the strings that start with \<^verbatim>\<open>https://\<close> and go on, the second lowers the letters A to Z.
\<close>

definition httpsUrl :: "string \<Rightarrow> bool" where
  "httpsUrl u = (take 8 u = ''https://'' \<and> length u > 8)"

definition asciiLower :: "string \<Rightarrow> string" where
  "asciiLower s =
     map (\<lambda>c. case map_of (zip ''ABCDEFGHIJKLMNOPQRSTUVWXYZ'' ''abcdefghijklmnopqrstuvwxyz'') c of
                Some l \<Rightarrow> l
              | None \<Rightarrow> c) s"

section \<open>The dashboard's routes to the agent\<close>

text \<open>
  The two routes \<^verbatim>\<open>app/api/agents/stream/route.ts\<close> and \<^verbatim>\<open>app/api/agents/rpc/route.ts\<close>
  receive the body posted by the page and talk to the agent. What they send out is
  recorded as a list of outbound requests, in order: a direct POST asking for an event
  stream or for JSON (with the url fetched, the JSON-RPC method and params, and all
  headers), and the calls made through the A2A SDK client (fetching the card with a
  bearer token, \<^verbatim>\<open>sendMessageStream\<close>, \<^verbatim>\<open>sendMessage\<close>).
\<close>

datatype outbound =
    SseRequest string string json headers
  | JsonRpcRequest string string json headers
  | SdkCardFetch string string
  | SdkStream json
  | SdkSend json

text \<open>
  What the agent's side answers. A direct streaming call throws (with a message, and the
  HTTP status when the response was not \<^verbatim>\<open>ok\<close>), or returns a response that is an event
  stream with a body, or any other response, given by its body text. The other calls
  throw with a message or return a value; how \<^verbatim>\<open>directJsonRpcCall\<close> turns an HTTP
  response into that outcome is not modelled. The SDK's card fetch yields
  \<^verbatim>\<open>capabilities?.streaming ?? false\<close>; its stream yields events and may then throw.
\<close>

datatype upstream_response =
    UpstreamFailed string "nat option"
  | UpstreamSse string
  | UpstreamText string

record agent_network =
  net_directStream :: "string \<Rightarrow> string \<Rightarrow> json \<Rightarrow> headers \<Rightarrow> upstream_response"
  net_directJsonRpc :: "string \<Rightarrow> string \<Rightarrow> json \<Rightarrow> headers \<Rightarrow> string + json"
  net_card :: "string \<Rightarrow> string \<Rightarrow> string + bool"
  net_sendMessageStream :: "string \<Rightarrow> string \<Rightarrow> json \<Rightarrow> json list \<times> string option"
  net_sendMessage :: "string \<Rightarrow> string \<Rightarrow> json \<Rightarrow> string + json"

text \<open>A route's response: a JSON body with its status, or an event stream with its text.\<close>

datatype route_response =
    JsonResponse nat json
  | EventStream string

definition jsonError :: "nat \<Rightarrow> string \<Rightarrow> route_response" where
  "jsonError status message = JsonResponse status (JObj [(''ok'', JBool False), (''error'', JStr message)])"

definition isMessageSendParams :: "json \<Rightarrow> bool" where
  "isMessageSendParams v =
     (truthy v \<and> typeof_object v \<and>
      (let message = jsGet v ''message'' in
       truthy message \<and> typeof_object message \<and>
       (case jsGet message ''messageId'' of JStr _ \<Rightarrow> True | _ \<Rightarrow> False) \<and>
       isArray (jsGet message ''parts'')))"

text \<open>\<^verbatim>\<open>text.includes(sub)\<close>.\<close>

fun strIncludes :: "string \<Rightarrow> string \<Rightarrow> bool" where
  "strIncludes [] sub = (sub = [])"
| "strIncludes (c # cs) sub = (take (length sub) (c # cs) = sub \<or> strIncludes cs sub)"

definition hasAuth :: "agent_auth_config option \<Rightarrow> bool" where
  "hasAuth auth = (case auth of Some a \<Rightarrow> auth_kind a \<noteq> AuthNone | None \<Rightarrow> False)"

definition AUTH_GUIDANCE :: string where
  "AUTH_GUIDANCE = ''Auth is configured but no headers were built. For custom headers, add at least one header with a name and value. For API key, set both header name and value. For bearer, set the token.''"

subsection \<open>The stream route\<close>

text \<open>The request that \<^verbatim>\<open>directStreamingCall\<close> makes, and what comes back.\<close>

definition sseRequest :: "string \<Rightarrow> string \<Rightarrow> json \<Rightarrow> headers \<Rightarrow> outbound" where
  "sseRequest targetUrl method params authHeaders =
     SseRequest (trim targetUrl) method params
       (assignHeaders [(''Content-Type'', ''application/json''),
                       (''Accept'', ''text/event-stream''),
                       (''User-Agent'', ''Agenticat/1.0 (A2A JSON-RPC client)'')] authHeaders)"

definition directStreamingCall ::
  "agent_network \<Rightarrow> string \<Rightarrow> string \<Rightarrow> json \<Rightarrow> headers \<Rightarrow> upstream_response" where
  "directStreamingCall net targetUrl method params authHeaders =
     net_directStream net (trim targetUrl) method params
       (assignHeaders [(''Content-Type'', ''application/json''),
                       (''Accept'', ''text/event-stream''),
                       (''User-Agent'', ''Agenticat/1.0 (A2A JSON-RPC client)'')] authHeaders)"

text \<open>
  A response that is not an event stream, turned into one: a single \<^verbatim>\<open>data:\<close> event with
  \<^verbatim>\<open>data.result ?? data\<close> and the \<^verbatim>\<open>[DONE]\<close> marker. The stream's \<^verbatim>\<open>start\<close> callback runs
  while the stream is constructed, so reading \<^verbatim>\<open>.result\<close> of \<^verbatim>\<open>null\<close> throws a \<^verbatim>\<open>TypeError\<close>
  at that place of the route, inside its \<^verbatim>\<open>try\<close> block: the result is then \<open>Inl\<close> with
  the message of the error (as Node.js words it).
\<close>

definition sseEvent :: "string \<Rightarrow> string" where
  "sseEvent payload = ''data: '' @ payload @ [NL, NL]"

definition NULL_RESULT_ERROR :: string where
  "NULL_RESULT_ERROR =
     ''Cannot read properties of null (reading '' @ [CHR 0x27] @ ''result'' @ [CHR 0x27] @ '')''"

definition synthesizedStream :: "(json \<Rightarrow> string) \<Rightarrow> json \<Rightarrow> string + route_response" where
  "synthesizedStream stringify data =
     (if nullish data then Inl NULL_RESULT_ERROR
      else Inr (EventStream (sseEvent (stringify (js_coalesce (jsGet data ''result'') data))
                             @ sseEvent ''[DONE]'')))"

text \<open>\<^verbatim>\<open>text ? JSON.parse(text) : {}\<close>; \<open>parseJson\<close> is the platform's parser.\<close>

definition parseBody :: "(string \<Rightarrow> string + json) \<Rightarrow> string \<Rightarrow> string + json" where
  "parseBody parseJson text = (if text = [] then Inr (JObj []) else parseJson text)"

text \<open>
  The \<^verbatim>\<open>catch\<close> block of the stream route, given the message and status of the error and
  the requests made so far.
\<close>

definition streamCatch ::
  "(json \<Rightarrow> string) \<Rightarrow> (string \<Rightarrow> string + json) \<Rightarrow> agent_network \<Rightarrow> string \<Rightarrow> string
     \<Rightarrow> json \<Rightarrow> headers \<Rightarrow> string \<Rightarrow> nat option \<Rightarrow> outbound list
     \<Rightarrow> route_response \<times> outbound list" where
  "streamCatch stringify parseJson net cardUrl method params authHeaders message status trace =
     (if cardUrl \<noteq> [] \<and> strIncludes message ''Failed to fetch Agent Card'' \<and> strIncludes message ''404''
      then
        (case directStreamingCall net cardUrl method params authHeaders of
           UpstreamFailed fallbackMessage _ \<Rightarrow> jsonError 500 fallbackMessage
         | UpstreamSse body \<Rightarrow> EventStream body
         | UpstreamText text \<Rightarrow>
             (case parseBody parseJson text of
                Inl _ \<Rightarrow> jsonError 502 ''Upstream response was not valid JSON.''
              | Inr data \<Rightarrow>
                  (case synthesizedStream stringify data of
                     Inl fallbackMessage \<Rightarrow> jsonError 500 fallbackMessage
                   | Inr response \<Rightarrow> response)),
         trace @ [sseRequest cardUrl method params authHeaders])
      else
        (jsonError (case status of
                      Some code \<Rightarrow> if 400 \<le> code \<and> code < 600 then 502 else 500
                    | None \<Rightarrow> 500)
           (orElse message ''Request failed.''), trace))"

text \<open>
  \<^verbatim>\<open>POST\<close> of the stream route, given the parsed body (\<open>None\<close> when the body is not
  JSON).
\<close>

definition streamPOST ::
  "(json \<Rightarrow> string) \<Rightarrow> (string \<Rightarrow> string + json) \<Rightarrow> agent_network \<Rightarrow> route_request option
     \<Rightarrow> route_response \<times> outbound list" where
  "streamPOST stringify parseJson net request =
     (case request of
        None \<Rightarrow> (jsonError 400 ''Invalid JSON payload.'', [])
      | Some body \<Rightarrow>
          let cardUrl = (case rq_cardUrl body of Some u \<Rightarrow> u | None \<Rightarrow> '''');
              endpointUrl = (case rq_endpointUrl body of Some u \<Rightarrow> u | None \<Rightarrow> '''');
              method = (case nonEmpty (rq_method body) of Some m \<Rightarrow> m | None \<Rightarrow> ''message/stream'');
              params = rq_params body;
              auth = rq_auth body;
              authHeaders = buildAuthHeaders auth;
              authToken = getAuthTokenForSdk auth
          in
          if hasAuth auth \<and> authHeaders = [] then (jsonError 400 AUTH_GUIDANCE, [])
          else if cardUrl = [] \<and> endpointUrl = []
          then (jsonError 400 ''Missing cardUrl or endpointUrl.'', [])
          else if \<not> isMessageSendParams params
          then (jsonError 400 ''Missing params.message.'', [])
          else if (cardUrl = [] \<and> endpointUrl \<noteq> []) \<or> (endpointUrl \<noteq> [] \<and> hasAuth auth)
          then
            (case directStreamingCall net endpointUrl method params authHeaders of
               UpstreamFailed message status \<Rightarrow>
                 streamCatch stringify parseJson net cardUrl method params authHeaders message status
                   [sseRequest endpointUrl method params authHeaders]
             | UpstreamSse body \<Rightarrow>
                 (EventStream body, [sseRequest endpointUrl method params authHeaders])
             | UpstreamText text \<Rightarrow>
                 (case parseBody parseJson text of
                    Inl message \<Rightarrow>
                      (jsonError 502 (''Upstream response: '' @ message),
                       [sseRequest endpointUrl method params authHeaders])
                  | Inr data \<Rightarrow>
                      (case synthesizedStream stringify data of
                         Inl message \<Rightarrow>
                           streamCatch stringify parseJson net cardUrl method params authHeaders
                             message None [sseRequest endpointUrl method params authHeaders]
                       | Inr response \<Rightarrow>
                           (response, [sseRequest endpointUrl method params authHeaders]))))
          else
            (case net_card net cardUrl authToken of
               Inl message \<Rightarrow>
                 streamCatch stringify parseJson net cardUrl method params authHeaders message None
                   [SdkCardFetch cardUrl authToken]
             | Inr supportsStreaming \<Rightarrow>
                 if \<not> supportsStreaming \<and> endpointUrl \<noteq> [] then
                   (case directStreamingCall net endpointUrl method params authHeaders of
                      UpstreamFailed message status \<Rightarrow>
                        streamCatch stringify parseJson net cardUrl method params authHeaders
                          message status
                          [SdkCardFetch cardUrl authToken,
                           sseRequest endpointUrl method params authHeaders]
                    | UpstreamSse body \<Rightarrow>
                        (EventStream body,
                         [SdkCardFetch cardUrl authToken,
                          sseRequest endpointUrl method params authHeaders])
                    | UpstreamText text \<Rightarrow>
                        (case parseJson text of
                           Inl message \<Rightarrow>
                             streamCatch stringify parseJson net cardUrl method params authHeaders
                               message None
                               [SdkCardFetch cardUrl authToken,
                                sseRequest endpointUrl method params authHeaders]
                         | Inr data \<Rightarrow>
                             (case synthesizedStream stringify data of
                                Inl message \<Rightarrow>
                                  streamCatch stringify parseJson net cardUrl method params
                                    authHeaders message None
                                    [SdkCardFetch cardUrl authToken,
                                     sseRequest endpointUrl method params authHeaders]
                              | Inr response \<Rightarrow>
                                  (response,
                                   [SdkCardFetch cardUrl authToken,
                                    sseRequest endpointUrl method params authHeaders]))))
                 else if \<not> supportsStreaming
                 then (jsonError 400 ''Agent does not support streaming.'',
                       [SdkCardFetch cardUrl authToken])
                 else
                   (case net_sendMessageStream net cardUrl authToken params of
                      (events, failure) \<Rightarrow>
                        (EventStream
                           (concat (map (\<lambda>event. sseEvent (stringify event)) events)
                            @ (case failure of
                                 None \<Rightarrow> sseEvent ''[DONE]''
                               | Some errorMessage \<Rightarrow>
                                   sseEvent (stringify (JObj [(''error'', JStr errorMessage)])))),
                         [SdkCardFetch cardUrl authToken, SdkStream params]))))"

subsection \<open>The rpc route\<close>

text \<open>
  The url that \<^verbatim>\<open>directJsonRpcCall\<close> fetches: the target without its trailing slashes,
  or the target itself when nothing is left.
\<close>

definition stripTrailingSlashes :: "string \<Rightarrow> string" where
  "stripTrailingSlashes u = rev (dropWhile (\<lambda>c. c = CHR ''/'') (rev u))"

definition jsonRpcRequest :: "string \<Rightarrow> string \<Rightarrow> json \<Rightarrow> headers \<Rightarrow> outbound" where
  "jsonRpcRequest targetUrl method params authHeaders =
     JsonRpcRequest (orElse (stripTrailingSlashes targetUrl) targetUrl) method params
       (assignHeaders [(''Content-Type'', ''application/json''),
                       (''Accept'', ''application/json''),
                       (''User-Agent'', ''Agenticat/1.0 (A2A JSON-RPC client)'')] authHeaders)"

definition directJsonRpcCall ::
  "agent_network \<Rightarrow> string \<Rightarrow> string \<Rightarrow> json \<Rightarrow> headers \<Rightarrow> string + json" where
  "directJsonRpcCall net targetUrl method params authHeaders =
     net_directJsonRpc net (orElse (stripTrailingSlashes targetUrl) targetUrl) method params
       (assignHeaders [(''Content-Type'', ''application/json''),
                       (''Accept'', ''application/json''),
                       (''User-Agent'', ''Agenticat/1.0 (A2A JSON-RPC client)'')] authHeaders)"

definition rpcSuccess :: "json \<Rightarrow> bool \<Rightarrow> (string \<times> json) list \<Rightarrow> route_response" where
  "rpcSuccess data streamed extra =
     JsonResponse 200
       (JObj ([(''ok'', JBool True), (''status'', JNum ''200''), (''data'', data)] @ extra
              @ [(''streaming'', JBool streamed)]))"

definition rpcCatch ::
  "agent_network \<Rightarrow> string \<Rightarrow> string \<Rightarrow> json \<Rightarrow> headers \<Rightarrow> string \<Rightarrow> outbound list
     \<Rightarrow> route_response \<times> outbound list" where
  "rpcCatch net cardUrl method params authHeaders message trace =
     (if cardUrl \<noteq> [] \<and> strIncludes message ''Failed to fetch Agent Card'' \<and> strIncludes message ''404''
      then
        (case directJsonRpcCall net cardUrl method params authHeaders of
           Inl fallbackMessage \<Rightarrow> jsonError 500 fallbackMessage
         | Inr data \<Rightarrow> rpcSuccess data False [],
         trace @ [jsonRpcRequest cardUrl method params authHeaders])
      else (jsonError 500 message, trace))"

text \<open>
  The events that the loop over \<^verbatim>\<open>sendMessageStream\<close> consumes: it stops after a
  \<^verbatim>\<open>status-update\<close> whose state is \<^verbatim>\<open>completed\<close> or \<^verbatim>\<open>failed\<close>. The result also says whether
  the loop stopped that way.
\<close>

fun consumedEvents :: "json list \<Rightarrow> json list \<times> bool" where
  "consumedEvents [] = ([], False)"
| "consumedEvents (event # events) =
     (if jsGet event ''kind'' = JStr ''status-update''
         \<and> (jsGet (jsGet event ''status'') ''state'' = JStr ''completed''
            \<or> jsGet (jsGet event ''status'') ''state'' = JStr ''failed'')
      then ([event], True)
      else (event # fst (consumedEvents events), snd (consumedEvents events)))"

text \<open>The latest task or message among the events: \<^verbatim>\<open>finalResult\<close>, or \<^verbatim>\<open>null\<close>.\<close>

definition finalResult :: "json list \<Rightarrow> json" where
  "finalResult events =
     (case find (\<lambda>event. jsGet event ''kind'' = JStr ''task'' \<or> jsGet event ''kind'' = JStr ''message'')
             (rev events) of
        Some event \<Rightarrow> event
      | None \<Rightarrow> JNull)"

definition rpcPOST :: "agent_network \<Rightarrow> route_request option \<Rightarrow> route_response \<times> outbound list" where
  "rpcPOST net request =
     (case request of
        None \<Rightarrow> (jsonError 400 ''Invalid JSON payload.'', [])
      | Some body \<Rightarrow>
          let cardUrl = (case rq_cardUrl body of Some u \<Rightarrow> u | None \<Rightarrow> '''');
              endpointUrl = (case rq_endpointUrl body of Some u \<Rightarrow> u | None \<Rightarrow> '''');
              method = (case rq_method body of Some m \<Rightarrow> m | None \<Rightarrow> ''message/send'');
              params = rq_params body;
              useStreaming = (case rq_streaming body of Some b \<Rightarrow> b | None \<Rightarrow> True);
              auth = rq_auth body;
              authHeaders = buildAuthHeaders auth;
              authToken = getAuthTokenForSdk auth
          in
          if cardUrl = [] \<and> endpointUrl = []
          then (jsonError 400 ''Missing cardUrl or endpointUrl.'', [])
          else if method \<notin> set [''message/send'', ''message/stream'']
          then (jsonError 400 (''Method '' @ [CHR 0x27] @ method @ [CHR 0x27]
                                @ '' not supported. Use one of: message/send, message/stream''), [])
          else if \<not> isMessageSendParams params
          then (jsonError 400 ''Missing params.message.'', [])
          else
            let requestStreaming = (if method = ''message/stream'' then True else useStreaming) in
            if cardUrl = [] \<and> endpointUrl \<noteq> [] then
              (case directJsonRpcCall net endpointUrl method params authHeaders of
                 Inl message \<Rightarrow>
                   rpcCatch net cardUrl method params authHeaders message
                     [jsonRpcRequest endpointUrl method params authHeaders]
               | Inr data \<Rightarrow>
                   (rpcSuccess data False [], [jsonRpcRequest endpointUrl method params authHeaders]))
            else
              (case net_card net cardUrl authToken of
                 Inl message \<Rightarrow>
                   rpcCatch net cardUrl method params authHeaders message
                     [SdkCardFetch cardUrl authToken]
               | Inr supportsStreaming \<Rightarrow>
                   if requestStreaming \<and> supportsStreaming then
                     (case net_sendMessageStream net cardUrl authToken params of
                        (events, failure) \<Rightarrow>
                          let consumed = fst (consumedEvents events);
                              stopped = snd (consumedEvents events)
                          in (case (if stopped then None else failure) of
                                Some message \<Rightarrow>
                                  rpcCatch net cardUrl method params authHeaders message
                                    [SdkCardFetch cardUrl authToken, SdkStream params]
                              | None \<Rightarrow>
                                  (rpcSuccess
                                     (js_coalesce (finalResult consumed)
                                        (js_coalesce
                                           (if consumed = [] then JUndef else last consumed) JNull))
                                     True [(''events'', JArr consumed)],
                                   [SdkCardFetch cardUrl authToken, SdkStream params])))
                   else
                     (case net_sendMessage net cardUrl authToken params of
                        Inl message \<Rightarrow>
                          rpcCatch net cardUrl method params authHeaders message
                            [SdkCardFetch cardUrl authToken, SdkSend params]
                      | Inr data \<Rightarrow>
                          (rpcSuccess data False [],
                           [SdkCardFetch cardUrl authToken, SdkSend params]))))"

subsection \<open>Example requests and agents\<close>

text \<open>The params of a first message, and bodies posted for the agent at \<^verbatim>\<open>https://x/a\<close>.\<close>

definition helloParams :: json where
  "helloParams =
     JObj [(''message'',
            JObj [(''messageId'', JStr ''m-2''), (''role'', JStr ''user''),
                  (''kind'', JStr ''message''),
                  (''parts'', JArr [JObj [(''kind'', JStr ''text''), (''text'', JStr ''hello'')]])])]"

text \<open>
  An API key was chosen as auth type, but the header value was left empty: a fresh session
  with the agent \<open>echoCard\<close> in which that is its auth configuration, and the body that
  the page posts when the user sends \<^verbatim>\<open>hello\<close> there.
\<close>

definition unusableAuth :: agent_auth_config where
  "unusableAuth =
     \<lparr>auth_kind = AuthApiKey, token = None, apiKeyHeader = Some ''X-API-Key'',
      apiKeyValue = Some '''', customHeaders = None\<rparr>"

definition misconfiguredSession :: app_state where
  "misconfiguredSession =
     initialState
       \<lparr>agents := [echoCard],
        selectedAgentId := Some ''https://x/a'',
        endpointByAgent := [''https://x/a'' \<mapsto> ''https://x/a''],
        methodByAgent := [''https://x/a'' \<mapsto> ''message/send''],
        authByAgent := [''https://x/a'' \<mapsto> unusableAuth]\<rparr>"

definition unusableAuthBody :: route_request where
  "unusableAuthBody =
     \<lparr>rq_cardUrl = Some ''https://x/a'', rq_endpointUrl = Some ''https://x/a'',
      rq_method = Some ''message/send'', rq_params = helloParams, rq_streaming = None,
      rq_auth = Some unusableAuth\<rparr>"

definition forcedStreamBody :: route_request where
  "forcedStreamBody =
     \<lparr>rq_cardUrl = Some ''https://x/card'', rq_endpointUrl = Some ''https://x/a'',
      rq_method = Some ''message/stream'', rq_params = helloParams, rq_streaming = None,
      rq_auth = None\<rparr>"

text \<open>
  An agent whose card declares no streaming and that answers every request with one JSON
  body, a completed task as JSON-RPC result; and stand-ins for the JSON parser and
  printer on that body.
\<close>

definition plainJsonAgent :: agent_network where
  "plainJsonAgent =
     \<lparr>net_directStream = (\<lambda>url method params hs. UpstreamText ''{result}''),
      net_directJsonRpc = (\<lambda>url method params hs. Inr (taskPayload ''completed'')),
      net_card = (\<lambda>url tok. Inr False),
      net_sendMessageStream = (\<lambda>url tok params. ([], None)),
      net_sendMessage = (\<lambda>url tok params. Inr (taskPayload ''completed''))\<rparr>"

definition exampleParse :: "string \<Rightarrow> string + json" where
  "exampleParse body =
     (if body = ''{result}'' then Inr (JObj [(''result'', taskPayload ''completed'')])
      else Inl ''Unexpected token'')"

definition examplePrint :: "json \<Rightarrow> string" where
  "examplePrint v = (if v = taskPayload ''completed'' then ''{task}'' else ''{}'')"

section \<open>Verified properties\<close>

subsection \<open>Trimming\<close>

text \<open>
  Facts about \<open>trim\<close>: what it returns neither starts nor ends with white space, so
  trimming twice is trimming once; and a text that neither starts nor ends with a byte
  that white space starts or ends with is left as it is.
\<close>

lemma stripLeading_fixed:
  "find (\<lambda>w. w \<noteq> [] \<and> take (length w) s = w) tokens = None \<Longrightarrow> stripLeading tokens s = s"
  by (subst stripLeading.simps) simp

lemma stripLeading_clean:
  "find (\<lambda>w. w \<noteq> [] \<and> take (length w) (stripLeading tokens s) = w) tokens = None"
proof (induction tokens s rule: stripLeading.induct)
  case (1 tokens s)
  show ?case
  proof (cases "find (\<lambda>w. w \<noteq> [] \<and> take (length w) s = w) tokens")
    case None
    then show ?thesis
      by (simp add: stripLeading_fixed)
  next
    case (Some w)
    have "stripLeading tokens s = stripLeading tokens (drop (length w) s)"
      by (subst stripLeading.simps) (simp add: Some)
    with 1[OF Some] show ?thesis
      by simp
  qed
qed

lemma stripLeading_suffix: "\<exists>lead. s = lead @ stripLeading tokens s"
proof (induction tokens s rule: stripLeading.induct)
  case (1 tokens s)
  show ?case
  proof (cases "find (\<lambda>w. w \<noteq> [] \<and> take (length w) s = w) tokens")
    case None
    then show ?thesis
      by (simp add: stripLeading_fixed)
  next
    case (Some w)
    have step: "stripLeading tokens s = stripLeading tokens (drop (length w) s)"
      by (subst stripLeading.simps) (simp add: Some)
    from 1[OF Some] obtain lead where "drop (length w) s = lead @ stripLeading tokens s"
      unfolding step by blast
    then have "s = (take (length w) s @ lead) @ stripLeading tokens s"
      by (metis append_assoc append_take_drop_id)
    then show ?thesis
      by blast
  qed
qed

lemma clean_prefix:
  assumes "find (\<lambda>w. w \<noteq> [] \<and> take (length w) (a @ b) = w) tokens = None"
  shows "find (\<lambda>w. w \<noteq> [] \<and> take (length w) a = w) tokens = None"
proof -
  have "take (length w) (a @ b) = w" if "take (length w) a = w" for w
  proof -
    from that have "length (take (length w) a) = length w"
      by simp
    then have "length w \<le> length a"
      by simp
    with that show ?thesis
      by simp
  qed
  with assms show ?thesis
    by (auto simp: find_None_iff)
qed

lemma trim_idem: "trim (trim s) = trim s"
proof -
  let ?a = "stripLeading whiteSpace s"
  let ?b = "stripLeading (map rev whiteSpace) (rev ?a)"
  obtain lead where "rev ?a = lead @ ?b"
    using stripLeading_suffix[of "rev ?a" "map rev whiteSpace"] by blast
  then have "?a = rev ?b @ rev lead"
    by (metis rev_append rev_rev_ident)
  with stripLeading_clean[of whiteSpace s]
  have "find (\<lambda>w. w \<noteq> [] \<and> take (length w) (rev ?b @ rev lead) = w) whiteSpace = None"
    by simp
  then have "stripLeading whiteSpace (rev ?b) = rev ?b"
    by (intro stripLeading_fixed clean_prefix)
  moreover have "stripLeading (map rev whiteSpace) ?b = ?b"
    by (intro stripLeading_fixed stripLeading_clean)
  ultimately show ?thesis
    by (simp add: trim_def)
qed

lemma trim_unchanged:
  assumes "s \<noteq> []" "hd s \<notin> hd ` set whiteSpace" "last s \<notin> last ` set whiteSpace"
  shows "trim s = s"
proof -
  have "\<not> (w \<noteq> [] \<and> take (length w) s = w)" if "w \<in> set whiteSpace" for w
  proof
    assume w: "w \<noteq> [] \<and> take (length w) s = w"
    then have "0 < length w"
      by simp
    then have "hd (take (length w) s) = hd s"
      by (rule hd_take)
    with w have "hd s = hd w"
      by metis
    then show False
      using that assms(2) by (metis imageI)
  qed
  then have "find (\<lambda>w. w \<noteq> [] \<and> take (length w) s = w) whiteSpace = None"
    unfolding find_None_iff by blast
  then have lead: "stripLeading whiteSpace s = s"
    by (rule stripLeading_fixed)
  have "\<not> (w \<noteq> [] \<and> take (length w) (rev s) = w)" if "w \<in> set (map rev whiteSpace)" for w
  proof
    assume w: "w \<noteq> [] \<and> take (length w) (rev s) = w"
    from that obtain v where v: "v \<in> set whiteSpace" "w = rev v"
      by auto
    from w have "0 < length w"
      by simp
    then have "hd (take (length w) (rev s)) = hd (rev s)"
      by (rule hd_take)
    with w have "hd (rev s) = hd w"
      by metis
    moreover have "hd (rev s) = last s"
      using assms(1) by (simp add: hd_rev)
    moreover have "hd w = last v"
      using w v by (simp add: hd_rev)
    ultimately have "last s = last v"
      by simp
    then show False
      using v assms(3) by (metis imageI)
  qed
  then have "find (\<lambda>w. w \<noteq> [] \<and> take (length w) (rev s) = w) (map rev whiteSpace) = None"
    unfolding find_None_iff by blast
  then have "stripLeading (map rev whiteSpace) (rev s) = rev s"
    by (rule stripLeading_fixed)
  with lead show ?thesis
    by (simp add: trim_def)
qed

lemma trim_empty: "trim [] = []"
  by (simp add: trim_def stripLeading_fixed find_None_iff)

lemma trim_examples:
  "trim ''hello'' = ''hello''" "trim ''Echo'' = ''Echo''" "trim ''https://x/a'' = ''https://x/a''"
  "trim ''https://x/override'' = ''https://x/override''" "trim ''jsonrpc'' = ''jsonrpc''"
  "trim ''t1'' = ''t1''"
  by (rule trim_unchanged; simp add: whiteSpace_def)+

lemma trim_asString: "trim (asString v) = asString v"
  by (cases v) (simp_all add: trim_idem trim_empty)

subsection \<open>Error summaries\<close>

text \<open>
  Claim C6, as stated, promises \<^verbatim>\<open>Agent error <code>: <message>\<close> whenever a numeric code
  and a string message are present. The source tests the message for truthiness, so an
  empty message counts as missing: \<^verbatim>\<open>{"error":{"code":-32601,"message":""}}\<close> yields
  \<^verbatim>\<open>Agent error -32601\<close>, without the colon.
\<close>

theorem extractErrorSummary_empty_message_counterexample:
  "extractErrorSummary emptyMessageError = Some ''Agent error -32601'' \<and>
   extractErrorSummary emptyMessageError \<noteq> Some (''Agent error '' @ ''-32601'' @ '': '' @ '''')"
  by (simp add: emptyMessageError_def extractErrorSummary_def js_coalesce_def)

text \<open>
  Claim C6, amended. Let the error object be the payload's top-level \<^verbatim>\<open>error\<close> when that is
  an object, or \<^verbatim>\<open>data.error\<close> when the top-level \<^verbatim>\<open>error\<close> is absent or null. Then the
  summary, which is also the display text of \<^verbatim>\<open>extractResponseText\<close>, is
  \<^verbatim>\<open>Agent error <code>: <message>\<close> when the code is a number and the message a non-empty
  string, \<^verbatim>\<open>Agent error: <message>\<close> when only a non-empty string message is there,
  \<^verbatim>\<open>Agent error <code>\<close> when only a numeric code is there (an empty message counts as
  missing), and \<^verbatim>\<open>Agent returned an error.\<close> otherwise. The code is printed as JavaScript
  prints the number: \<open>c\<close> below is that text.
\<close>

theorem extractErrorSummary_error_object:
  assumes "jsGet data ''error'' = JObj e \<or>
           (nullish (jsGet data ''error'') \<and> jsGet (jsGet data ''data'') ''error'' = JObj e)"
  shows "let display =
           (case (jsGet (JObj e) ''code'', jsGet (JObj e) ''message'') of
              (JNum c, JStr m) \<Rightarrow>
                if m \<noteq> [] then ''Agent error '' @ c @ '': '' @ m
                else ''Agent error '' @ c
            | (JNum c, _) \<Rightarrow> ''Agent error '' @ c
            | (_, JStr m) \<Rightarrow>
                if m \<noteq> [] then ''Agent error: '' @ m else ''Agent returned an error.''
            | _ \<Rightarrow> ''Agent returned an error.'')
         in extractErrorSummary data = Some display \<and>
            extractResponseText formatJson data = Some display"
proof -
  have obj: "truthy data \<and> typeof_object data"
    using assms by (cases data) auto
  have err: "js_coalesce (jsGet data ''error'') (jsGet (jsGet data ''data'') ''error'') = JObj e"
    using assms by (auto simp: js_coalesce_def)
  have nostr: "\<And>s. jsGet data ''error'' \<noteq> JStr s"
    using assms by auto
  define display where "display =
           (case (jsGet (JObj e) ''code'', jsGet (JObj e) ''message'') of
              (JNum c, JStr m) \<Rightarrow>
                if m \<noteq> [] then ''Agent error '' @ c @ '': '' @ m
                else ''Agent error '' @ c
            | (JNum c, _) \<Rightarrow> ''Agent error '' @ c
            | (_, JStr m) \<Rightarrow>
                if m \<noteq> [] then ''Agent error: '' @ m else ''Agent returned an error.''
            | _ \<Rightarrow> ''Agent returned an error.'')"
  have nonempty: "display \<noteq> []"
    unfolding display_def by (auto split: json.splits)
  have summary: "extractErrorSummary data = Some display"
    unfolding extractErrorSummary_def display_def using obj err
    by (auto simp: Let_def split: json.splits option.splits)
  have "extractResponseText formatJson data = Some display"
    unfolding extractResponseText_def truthySummary_def using obj summary nonempty nostr
    by (auto split: json.splits)
  with summary show ?thesis
    unfolding display_def Let_def by simp
qed

theorem extractErrorSummary_error_object_witness:
  "extractErrorSummary scenarioD = Some ''Agent error -32601: Method not found'' \<and>
   extractResponseText (\<lambda>_. ''{}'') scenarioD = Some ''Agent error -32601: Method not found''"
  using extractErrorSummary_error_object
    [of scenarioD "[(''code'', JNum ''-32601''), (''message'', JStr ''Method not found'')]"
        "\<lambda>_. ''{}''"]
  by (simp add: scenarioD_def Let_def)

text \<open>
  Claim C9: for an object payload whose top-level \<^verbatim>\<open>error\<close> is a string,
  \<^verbatim>\<open>extractResponseText\<close> returns that string as it is, whatever else the payload holds
  (an error object under \<^verbatim>\<open>data\<close>, a task or message kind, a legacy result) and whatever
  the pretty-printer would print.
\<close>

theorem extractResponseText_error_string_first:
  assumes "jsGet (JObj entries) ''error'' = JStr e"
  shows "extractResponseText formatJson (JObj entries) = Some e"
  using assms by (simp add: extractResponseText_def)

theorem extractResponseText_error_string_first_witness:
  "extractResponseText (\<lambda>_. ''{}'') shadowedError = Some ''boom''"
  using extractResponseText_error_string_first
    [of "[(''error'', JStr ''boom''), (''kind'', JStr ''task''), (''result'', JStr ''legacy''),
           (''data'', JObj [(''error'', JObj [(''code'', JNum ''1''), (''message'', JStr ''nested'')])])]"
        "''boom''" "\<lambda>_. ''{}''"]
  by (simp add: shadowedError_def)

subsection \<open>Deleting an agent\<close>

text \<open>
  What \<^verbatim>\<open>handleDeleteAgent\<close> does remove: the agent's card, its messages, logs, endpoint
  and method selections, context id, active task id, auth configuration and tracked
  tasks, and the selection when it pointed at the agent.
\<close>

lemma handleDeleteAgent_clears:
  "let s' = handleDeleteAgent agentId s in
     messagesByAgent s' agentId = None \<and> rpcLogsByAgent s' agentId = None \<and>
     endpointByAgent s' agentId = None \<and> methodByAgent s' agentId = None \<and>
     contextIdByAgent s' agentId = None \<and> taskIdByAgent s' agentId = None \<and>
     authByAgent s' agentId = None \<and> trackedTasksByAgent s' agentId = None \<and>
     selectedAgentId s' \<noteq> Some agentId \<and>
     agentId \<notin> card_id ` set (agents s')"
  by (auto simp: handleDeleteAgent_def Let_def)

text \<open>
  Claim C2 says that no per-agent mapping keyed by the deleted id survives, the endpoint
  override among them. The code does not hold that: \<^verbatim>\<open>handleDeleteAgent\<close> never touches
  \<^verbatim>\<open>endpointOverrideByAgent\<close>, so the override typed for an agent is still there after the
  agent is deleted (and is picked up again when an agent with the same id is registered).
\<close>

theorem handleDeleteAgent_keeps_endpoint_override:
  "endpointOverrideByAgent (handleDeleteAgent agentId s) = endpointOverrideByAgent s"
  by (simp add: handleDeleteAgent_def)

theorem handleDeleteAgent_keeps_endpoint_override_witness:
  "endpointOverrideByAgent (handleDeleteAgent ''https://x/a'' echoSession) ''https://x/a''
     = Some ''https://x/override''"
  using handleDeleteAgent_keeps_endpoint_override [of "''https://x/a''" echoSession]
  by (simp add: echoSession_def)

subsection \<open>Registering a card again\<close>

text \<open>
  Claim C10: accepting a card whose id is not the name of a member of
  \<^verbatim>\<open>Object.prototype\<close> puts it at the front of the agent list in place of any card with
  the same id, and leaves the messages, logs, auth configurations, context ids, active
  task ids, tracked tasks and endpoint overrides of every agent as they were. The
  endpoint and method selections of the card's id are kept when there are any; otherwise
  they become the url of the card's first endpoint (the empty string for a card without
  endpoints) and \<^verbatim>\<open>message/send\<close>. The selections of other ids are unchanged.
\<close>

theorem handleRegister_replaces_card_only:
  assumes "card_id c \<notin> set objectPrototypeKeys"
  shows "\<exists>s'. handleRegister (RegisterAccepted c) s = Some s' \<and>
     agents s' = c # filter (\<lambda>agent. card_id agent \<noteq> card_id c) (agents s) \<and>
     messagesByAgent s' = messagesByAgent s \<and>
     rpcLogsByAgent s' = rpcLogsByAgent s \<and>
     authByAgent s' = authByAgent s \<and>
     contextIdByAgent s' = contextIdByAgent s \<and>
     taskIdByAgent s' = taskIdByAgent s \<and>
     trackedTasksByAgent s' = trackedTasksByAgent s \<and>
     endpointOverrideByAgent s' = endpointOverrideByAgent s \<and>
     endpointByAgent s' (card_id c) =
       Some (case endpointByAgent s (card_id c) of
               Some chosen \<Rightarrow> chosen
             | None \<Rightarrow> (case endpoints c of ep # _ \<Rightarrow> ep_url ep | [] \<Rightarrow> '''')) \<and>
     methodByAgent s' (card_id c) =
       Some (case methodByAgent s (card_id c) of
               Some chosen \<Rightarrow> chosen
             | None \<Rightarrow> ''message/send'') \<and>
     (\<forall>other. other \<noteq> card_id c \<longrightarrow>
        endpointByAgent s' other = endpointByAgent s other \<and>
        methodByAgent s' other = methodByAgent s other)"
  using assms
  by (simp add: handleRegister_def inheritedMember_def Let_def DEFAULT_METHOD_def
        split: option.splits)

theorem handleRegister_replaces_card_only_witness:
  "\<exists>s' s''.
     handleRegister (RegisterAccepted echoCardV2) echoSession = Some s' \<and>
     agents s' = [echoCardV2] \<and>
     messagesByAgent s' ''https://x/a'' = Some echoMessages \<and>
     authByAgent s' ''https://x/a'' = Some echoAuth \<and>
     taskIdByAgent s' ''https://x/a'' = Some (JStr ''t1'') \<and>
     endpointByAgent s' ''https://x/a'' = Some ''https://x/a'' \<and>
     methodByAgent s' ''https://x/a'' = Some ''message/stream'' \<and>
     handleRegister (RegisterAccepted echoCardV2)
       (echoSession\<lparr>endpointByAgent := Map.empty, methodByAgent := Map.empty\<rparr>) = Some s'' \<and>
     endpointByAgent s'' ''https://x/a'' = Some ''https://x/v2''"
proof -
  have ordinary: "card_id echoCardV2 \<notin> set objectPrototypeKeys"
    by (simp add: echoCardV2_def echoCard_def objectPrototypeKeys_def)
  from handleRegister_replaces_card_only [OF ordinary, of echoSession]
  obtain s' where kept: "handleRegister (RegisterAccepted echoCardV2) echoSession = Some s'"
    "agents s' = [echoCardV2]"
    "messagesByAgent s' ''https://x/a'' = Some echoMessages"
    "authByAgent s' ''https://x/a'' = Some echoAuth"
    "taskIdByAgent s' ''https://x/a'' = Some (JStr ''t1'')"
    "endpointByAgent s' ''https://x/a'' = Some ''https://x/a''"
    "methodByAgent s' ''https://x/a'' = Some ''message/stream''"
    by (auto simp: echoSession_def initialState_def echoCardV2_def echoCard_def)
  from handleRegister_replaces_card_only [OF ordinary,
      of "echoSession\<lparr>endpointByAgent := Map.empty, methodByAgent := Map.empty\<rparr>"]
  obtain s'' where fresh: "handleRegister (RegisterAccepted echoCardV2)
       (echoSession\<lparr>endpointByAgent := Map.empty, methodByAgent := Map.empty\<rparr>) = Some s''"
    "endpointByAgent s'' ''https://x/a'' = Some ''https://x/v2''"
    by (auto simp: echoSession_def initialState_def echoCardV2_def echoCard_def)
  from kept fresh show ?thesis
    by blast
qed

lemma handleRegister_inherited_id:
  assumes "card_id c \<in> set objectPrototypeKeys" "endpointByAgent s (card_id c) = None"
  shows "handleRegister (RegisterAccepted c) s = None"
  using assms by (simp add: handleRegister_def inheritedMember_def)

subsection \<open>Tracked tasks\<close>








text \<open>
  What the three handlers do to the tracked tasks, and that they leave the selection
  alone: a frame, a response and a fetched task upsert what \<open>eventSighting\<close> says, for
  the agent it says, and nothing else in their handling writes the tracked tasks.
\<close>

lemma tracked_mapMessages [simp]:
  "trackedTasksByAgent (mapMessages a f s) = trackedTasksByAgent s"
  by (simp add: mapMessages_def)

lemma tracked_appendMessage [simp]:
  "trackedTasksByAgent (appendMessage a m s) = trackedTasksByAgent s"
  by (simp add: appendMessage_def)

lemma tracked_completeLog [simp]:
  "trackedTasksByAgent (completeLog env d payload status hs s) = trackedTasksByAgent s"
  by (simp add: completeLog_def Let_def)

lemma tracked_failRpc [simp]:
  "trackedTasksByAgent (failRpc env d hs e s) = trackedTasksByAgent s"
  by (simp add: failRpc_def Let_def)






lemma selection_mapMessages [simp]:
  "agents (mapMessages a f s) = agents s" "selectedAgentId (mapMessages a f s) = selectedAgentId s"
  by (simp_all add: mapMessages_def)

lemma selection_appendMessage [simp]:
  "agents (appendMessage a m s) = agents s"
  "selectedAgentId (appendMessage a m s) = selectedAgentId s"
  by (simp_all add: appendMessage_def)

lemma selection_completeLog [simp]:
  "agents (completeLog env d payload status hs s) = agents s"
  "selectedAgentId (completeLog env d payload status hs s) = selectedAgentId s"
  by (simp_all add: completeLog_def Let_def)

lemma selection_failRpc [simp]:
  "agents (failRpc env d hs e s) = agents s"
  "selectedAgentId (failRpc env d hs e s) = selectedAgentId s"
  by (simp_all add: failRpc_def Let_def)

lemma selection_bookkeeping [simp]:
  "agents (bookkeeping a payload now s) = agents s"
  "selectedAgentId (bookkeeping a payload now s) = selectedAgentId s"
  by (simp_all add: bookkeeping_def updateActiveTask_def updateContextId_def trackMaybe_def
        trackTask_def Let_def split: option.splits)









subsection \<open>The active task id\<close>

text \<open>
  The active task ids after a frame or a non-streaming response are those that
  \<open>updateActiveTask\<close> leaves; nothing else in the handling of either writes them.
\<close>

lemma taskId_bookkeeping:
  "taskIdByAgent (bookkeeping agentId payload now s) =
   taskIdByAgent (updateActiveTask agentId payload s)"
  by (simp add: bookkeeping_def updateActiveTask_def updateContextId_def trackMaybe_def
        trackTask_def Let_def split: option.splits)

lemma taskId_mapMessages [simp]: "taskIdByAgent (mapMessages a f s) = taskIdByAgent s"
  by (simp add: mapMessages_def)

lemma taskId_appendMessage [simp]: "taskIdByAgent (appendMessage a m s) = taskIdByAgent s"
  by (simp add: appendMessage_def)

lemma taskId_completeLog [simp]:
  "taskIdByAgent (completeLog env d payload status hs s) = taskIdByAgent s"
  by (simp add: completeLog_def Let_def)

lemma taskId_failRpc [simp]: "taskIdByAgent (failRpc env d hs e s) = taskIdByAgent s"
  by (simp add: failRpc_def Let_def)

lemma taskId_processFrame:
  "\<not> nullish parsed \<Longrightarrow>
   taskIdByAgent (snd (processFrame stringify agentId mid parsed now (p, s))) =
   taskIdByAgent (updateActiveTask agentId parsed s)"
  by (simp add: processFrame_def Let_def taskId_bookkeeping)

lemma taskId_runRpc:
  "taskIdByAgent (runRpc formatJson env d (RpcData entries) s) =
   taskIdByAgent (updateActiveTask (dp_agentId d)
      (js_coalesce (jsGet (JObj entries) ''data'') (JObj entries)) s)"
  by (simp add: runRpc_def Let_def taskId_bookkeeping updateActiveTask_def split: option.splits)

text \<open>The \<^verbatim>\<open>params\<close> of a dispatched send carry the active task id when it is truthy.\<close>

lemma prepareSend_params:
  assumes "selectedAgent s = Some agent" and "prepareSend env text s = (Some d, s')"
  shows "jsGet (dp_payload d) ''params'' = rq_params (dp_body d) \<and>
         jsGet (rq_params (dp_body d)) ''id'' =
           (if truthy (valueOf (taskIdByAgent s) (card_id agent))
            then valueOf (taskIdByAgent s) (card_id agent) else JUndef)"
  using assms
  by (auto simp: prepareSend_def Let_def buildRequestParams_def
           split: option.splits if_splits)

text \<open>
  Claim C4: let a payload carry a task id (a non-empty string) and a status state, and let
  it be handled for an agent either as a streaming frame or as the payload of a
  non-streaming response. If the state is \<^verbatim>\<open>input-required\<close>, the agent's active task id is
  that task id afterwards, and a send for that agent, made while the active task id is as
  the payload left it, is dispatched with that id as \<^verbatim>\<open>params.id\<close>. If the state is
  \<^verbatim>\<open>completed\<close>, \<^verbatim>\<open>failed\<close> or \<^verbatim>\<open>canceled\<close>, the agent has no active task id afterwards and
  such a send is dispatched without \<^verbatim>\<open>params.id\<close>.
\<close>

theorem active_task_id_follows_state:
  assumes carried: "jsGet payload ''id'' = JStr tid" "tid \<noteq> []"
      "jsGet (jsGet payload ''status'') ''state'' = JStr st"
    and handled:
      "after = snd (processFrame stringify (card_id agent) mid payload now (p, s)) \<or>
       (after = runRpc formatJson env0 d0 (RpcData entries) s \<and> dp_agentId d0 = card_id agent \<and>
        js_coalesce (jsGet (JObj entries) ''data'') (JObj entries) = payload)"
    and selected: "selectedAgent s2 = Some agent"
    and kept: "taskIdByAgent s2 (card_id agent) = taskIdByAgent after (card_id agent)"
    and sent: "prepareSend env text s2 = (Some d, s3)"
  shows "(st = ''input-required'' \<longrightarrow>
            taskIdByAgent after (card_id agent) = Some (JStr tid) \<and>
            jsGet (jsGet (dp_payload d) ''params'') ''id'' = JStr tid \<and>
            jsGet (rq_params (dp_body d)) ''id'' = JStr tid) \<and>
         (st \<in> {''completed'', ''failed'', ''canceled''} \<longrightarrow>
            taskIdByAgent after (card_id agent) = None \<and>
            jsGet (jsGet (dp_payload d) ''params'') ''id'' = JUndef \<and>
            jsGet (rq_params (dp_body d)) ''id'' = JUndef)"
proof -
  have notnull: "\<not> nullish payload"
    using carried(1) by (cases payload) auto
  have after: "taskIdByAgent after = taskIdByAgent (updateActiveTask (card_id agent) payload s)"
    using handled notnull by (auto simp: taskId_processFrame taskId_runRpc)
  have required: "st = ''input-required'' \<Longrightarrow> taskIdByAgent after (card_id agent) = Some (JStr tid)"
    using carried by (simp add: after updateActiveTask_def)
  have terminal: "st \<in> {''completed'', ''failed'', ''canceled''} \<Longrightarrow>
      taskIdByAgent after (card_id agent) = None"
    using carried by (auto simp: after updateActiveTask_def)
  note params = prepareSend_params[OF selected sent]
  show ?thesis
    using required terminal params kept carried(2)
    by (auto simp: valueOf_def)
qed

theorem active_task_id_follows_state_witness:
  "taskIdByAgent
     (snd (processFrame (\<lambda>_. ''{}'') ''https://x/a'' ''a2'' (taskPayload ''input-required'')
             ''2026-01-01T00:01:01.000Z''
             (\<lparr>accumulatedContent = '''', lastEventData = JNull, streamErrorMsg = None\<rparr>,
              echoSession\<lparr>taskIdByAgent := Map.empty\<rparr>)))
     ''https://x/a'' = Some (JStr ''t1'') \<and>
   map_option (\<lambda>d. jsGet (jsGet (dp_payload d) ''params'') ''id'')
     (fst (prepareSend exampleEnv ''hello'' echoSession)) = Some (JStr ''t1'') \<and>
   taskIdByAgent (runRpc (\<lambda>_. ''{}'') exampleEnv
       (the (fst (prepareSend exampleEnv ''hello'' echoSession)))
       (completedReply (dp_body (the (fst (prepareSend exampleEnv ''hello'' echoSession)))))
       echoSession) ''https://x/a'' = None \<and>
   map_option (\<lambda>d. jsGet (jsGet (dp_payload d) ''params'') ''id'')
     (fst (prepareSend exampleEnv ''hello'' (echoSession\<lparr>taskIdByAgent := Map.empty\<rparr>)))
     = Some JUndef"
proof -
  let ?p0 = "\<lparr>accumulatedContent = '''', lastEventData = JNull, streamErrorMsg = None\<rparr>"
  let ?s0 = "echoSession\<lparr>taskIdByAgent := Map.empty\<rparr>"
  let ?after1 = "snd (processFrame (\<lambda>_. ''{}'') ''https://x/a'' ''a2''
                   (taskPayload ''input-required'') ''2026-01-01T00:01:01.000Z'' (?p0, ?s0))"
  have sel: "selectedAgent echoSession = Some echoCard"
    by (simp add: selectedAgent_def echoSession_def initialState_def echoCard_def)
  have sel0: "selectedAgent ?s0 = Some echoCard"
    by (simp add: selectedAgent_def echoSession_def initialState_def echoCard_def)
  have id: "card_id echoCard = ''https://x/a''"
    by (simp add: echoCard_def)
  obtain d1 s1 where send1: "prepareSend exampleEnv ''hello'' echoSession = (Some d1, s1)"
    by (simp add: prepareSend_def Let_def selectedAgent_def chosenEndpoint_def chosenMethod_def
          nonEmpty_def echoSession_def initialState_def echoCard_def trim_examples
          SUPPORTED_METHODS_def)
  obtain d2 s2 where send2: "prepareSend exampleEnv ''hello'' ?s0 = (Some d2, s2)"
    by (simp add: prepareSend_def Let_def selectedAgent_def chosenEndpoint_def chosenMethod_def
          nonEmpty_def echoSession_def initialState_def echoCard_def trim_examples
          SUPPORTED_METHODS_def)
  have agent1: "dp_agentId d1 = ''https://x/a''"
    using send1
    by (auto simp: prepareSend_def Let_def sel chosenEndpoint_def chosenMethod_def nonEmpty_def
          echoCard_def split: option.splits if_splits)
  let ?after2 = "runRpc (\<lambda>_. ''{}'') exampleEnv d1 (completedReply (dp_body d1)) echoSession"
  have kept1: "taskIdByAgent echoSession (card_id echoCard) = taskIdByAgent ?after1 (card_id echoCard)"
    by (simp add: id taskId_processFrame taskPayload_def updateActiveTask_def echoSession_def)
  have kept2: "taskIdByAgent ?s0 (card_id echoCard) = taskIdByAgent ?after2 (card_id echoCard)"
    by (simp add: id agent1 completedReply_def taskId_runRpc taskPayload_def updateActiveTask_def
          js_coalesce_def)
  have required:
    "taskIdByAgent ?after1 ''https://x/a'' = Some (JStr ''t1'') \<and>
     jsGet (jsGet (dp_payload d1) ''params'') ''id'' = JStr ''t1''"
    using active_task_id_follows_state
      [of "taskPayload ''input-required''" "''t1''" "''input-required''" ?after1
          "\<lambda>_. ''{}''" echoCard "''a2''" "''2026-01-01T00:01:01.000Z''" ?p0 ?s0
          "\<lambda>_. ''{}''" exampleEnv d1 "[]" echoSession exampleEnv "''hello''" d1 s1]
      sel kept1 send1
    by (simp add: id taskPayload_def)
  have cleared:
    "taskIdByAgent ?after2 ''https://x/a'' = None \<and>
     jsGet (jsGet (dp_payload d2) ''params'') ''id'' = JUndef"
    using active_task_id_follows_state
      [of "taskPayload ''completed''" "''t1''" "''completed''" ?after2
          "\<lambda>_. ''{}''" echoCard "''a2''" "''2026-01-01T00:01:01.000Z''" ?p0 echoSession
          "\<lambda>_. ''{}''" exampleEnv d1
          "[(''ok'', JBool True), (''status'', JNum ''200''), (''data'', taskPayload ''completed''),
            (''streaming'', JBool False)]" ?s0 exampleEnv "''hello''" d2 s2]
      sel0 kept2 send2 agent1
    by (simp add: id taskPayload_def completedReply_def js_coalesce_def)
  show ?thesis
    using required cleared send1 send2 by simp
qed

subsection \<open>Retry\<close>

text \<open>
  What a send does to the history of its agent: the user message is appended, and the
  exchange that follows rewrites at most the message with the assistant's id and appends.
\<close>

lemma messages_bookkeeping [simp]:
  "messagesByAgent (bookkeeping agentId payload now s) = messagesByAgent s"
  by (simp add: bookkeeping_def updateActiveTask_def updateContextId_def trackMaybe_def
        trackTask_def Let_def split: option.splits)

lemma messages_completeLog [simp]:
  "messagesByAgent (completeLog env d payload status hs s) = messagesByAgent s"
  by (simp add: completeLog_def Let_def)

lemma messages_mapMessages [simp]:
  "listOf (messagesByAgent (mapMessages a f s)) a = map f (listOf (messagesByAgent s) a)"
  by (simp add: mapMessages_def listOf_def)

lemma messages_appendMessage [simp]:
  "listOf (messagesByAgent (appendMessage a m s)) a = listOf (messagesByAgent s) a @ [m]"
  by (simp add: appendMessage_def listOf_def)

lemma processFrame_messages:
  "\<exists>f. (\<forall>m. msg_id m \<noteq> mid \<longrightarrow> f m = m) \<and>
       listOf (messagesByAgent (snd (processFrame stringify a mid parsed now ps))) a =
       map f (listOf (messagesByAgent (snd ps)) a)"
proof -
  let ?content = "accumulatedContent (fst (processFrame stringify a mid parsed now ps))"
  let ?g1 = "\<lambda>m. if \<not> nullish parsed \<and> jsGet parsed ''kind'' = JStr ''task'' \<and> msg_id m = mid
      then m\<lparr>msg_taskId := jsGet parsed ''id'',
             msg_taskState := jsGet (jsGet parsed ''status'') ''state''\<rparr> else m"
  let ?g2 = "\<lambda>m. if \<not> nullish parsed \<and> ?content \<noteq> [] \<and> msg_id m = mid
      then m\<lparr>msg_content := ?content\<rparr> else m"
  have "\<forall>m. msg_id m \<noteq> mid \<longrightarrow> (?g2 \<circ> ?g1) m = m"
    by simp
  moreover have "listOf (messagesByAgent (snd (processFrame stringify a mid parsed now ps))) a =
       map (?g2 \<circ> ?g1) (listOf (messagesByAgent (snd ps)) a)"
  proof (cases "nullish parsed")
    case True
    then show ?thesis
      by (simp add: processFrame_def Let_def o_def)
  next
    case False
    then show ?thesis
      by (simp add: processFrame_def Let_def o_def split: option.splits)
  qed
  ultimately show ?thesis
    by blast
qed

lemma processLines_messages:
  "\<exists>f. (\<forall>m. msg_id m \<noteq> mid \<longrightarrow> f m = m) \<and>
       listOf (messagesByAgent (snd (foldl (processLine stringify a mid) ps lines))) a =
       map f (listOf (messagesByAgent (snd ps)) a)"
proof (induction lines arbitrary: ps)
  case Nil
  show ?case
    by (rule exI[of _ id]) simp
next
  case (Cons line lines)
  obtain f where f: "\<forall>m. msg_id m \<noteq> mid \<longrightarrow> f m = m"
      "listOf (messagesByAgent (snd (processLine stringify a mid ps line))) a =
       map f (listOf (messagesByAgent (snd ps)) a)"
  proof (cases "fst line")
    case (DataEvent parsed)
    from processFrame_messages[of mid stringify a parsed "snd line" ps]
    obtain f0 where "\<forall>m. msg_id m \<noteq> mid \<longrightarrow> f0 m = m"
      "listOf (messagesByAgent (snd (processFrame stringify a mid parsed (snd line) ps))) a =
       map f0 (listOf (messagesByAgent (snd ps)) a)"
      by blast
    then show ?thesis
      using that[of f0] DataEvent by (simp add: processLine_def)
  qed (use that[of id] in \<open>simp_all add: processLine_def\<close>)
  from Cons.IH[of "processLine stringify a mid ps line"]
  obtain g where g: "\<forall>m. msg_id m \<noteq> mid \<longrightarrow> g m = m"
      "listOf (messagesByAgent (snd (foldl (processLine stringify a mid)
          (processLine stringify a mid ps line) lines))) a =
       map g (listOf (messagesByAgent (snd (processLine stringify a mid ps line))) a)"
    by blast
  show ?case
    by (rule exI[of _ "g \<circ> f"]) (use f g in simp)
qed

lemma failStream_messages:
  "\<exists>f. (\<forall>m. msg_id m \<noteq> mid \<longrightarrow> f m = m) \<and>
       listOf (messagesByAgent (failStream a mid e s)) a = map f (listOf (messagesByAgent s) a)"
  by (rule exI[of _ "\<lambda>msg. if msg_id msg = mid
              then msg\<lparr>msg_content := ''Error: '' @ e,
                       msg_status := Some Error, msg_error := Some e\<rparr>
              else msg"])
    (simp add: failStream_def mapMessages_def listOf_def)

lemma finishStream_messages:
  "\<exists>f. (\<forall>m. msg_id m \<noteq> env_assistantMessageId env \<longrightarrow> f m = m) \<and>
       listOf (messagesByAgent (finishStream env a p isError displayContent s)) a =
       map f (listOf (messagesByAgent s) a)"
  by (rule exI[of _ "\<lambda>msg. if msg_id msg = env_assistantMessageId env
        then msg\<lparr>msg_content := displayContent,
                 msg_status := Some (if isError then Error else Complete),
                 msg_error := (if isError then Some displayContent else None)\<rparr>
        else msg"])
    (simp add: finishStream_def Let_def mapMessages_def listOf_def)

lemma finalizeStream_messages:
  "\<exists>f. (\<forall>m. msg_id m \<noteq> env_assistantMessageId env \<longrightarrow> f m = m) \<and>
       listOf (messagesByAgent (finalizeStream formatJson env a p s)) a =
       map f (listOf (messagesByAgent s) a)"
proof (cases "streamOutcome formatJson p")
  case None
  then show ?thesis
    using failStream_messages[of "env_assistantMessageId env" a TO_PRIMITIVE_ERROR s]
    by (simp add: finalizeStream_def)
next
  case (Some outcome)
  then show ?thesis
    using finishStream_messages[of env a p "fst outcome" "snd outcome" s]
    by (simp add: finalizeStream_def)
qed

lemma messages_sending: "messagesByAgent (s\<lparr>sending := b\<rparr>) = messagesByAgent s"
  by simp

lemma runStreaming_messages:
  "\<exists>f tail. (\<forall>m. msg_id m \<noteq> env_assistantMessageId env \<longrightarrow> f m = m) \<and>
       listOf (messagesByAgent (runStreaming stringify formatJson env d result s)) (dp_agentId d) =
       map f (listOf (messagesByAgent s) (dp_agentId d)) @ tail"
proof -
  let ?a = "dp_agentId d" and ?mid = "env_assistantMessageId env"
  let ?ph = "\<lparr>msg_id = ?mid, msg_role = Assistant, msg_content = '''',
             msg_timestamp = env_placeholderTimestamp env, msg_status = Some Streaming,
             msg_error = None, msg_taskId = JUndef, msg_taskState = JUndef\<rparr>"
  let ?p0 = "\<lparr>accumulatedContent = '''', lastEventData = JNull, streamErrorMsg = None\<rparr>"
  let ?ps = "foldl (processLine stringify ?a ?mid) (?p0, appendMessage ?a ?ph s) (linesOf result)"
  from processLines_messages[of ?mid stringify ?a "(?p0, appendMessage ?a ?ph s)" "linesOf result"]
  obtain f where f: "\<forall>m. msg_id m \<noteq> ?mid \<longrightarrow> f m = m"
      "listOf (messagesByAgent (snd ?ps)) ?a = map f (listOf (messagesByAgent s) ?a @ [?ph])"
    by auto
  have run: "messagesByAgent (runStreaming stringify formatJson env d result s) =
      messagesByAgent (case result of
         StreamThrew errorMessage _ \<Rightarrow> failStream ?a ?mid errorMessage (snd ?ps)
       | StreamEnded _ \<Rightarrow> finalizeStream formatJson env ?a (fst ?ps) (snd ?ps))"
    unfolding runStreaming_def Let_def by (rule messages_sending)
  have "\<exists>g. (\<forall>m. msg_id m \<noteq> ?mid \<longrightarrow> g m = m) \<and>
      listOf (messagesByAgent (runStreaming stringify formatJson env d result s)) ?a =
      map g (listOf (messagesByAgent (snd ?ps)) ?a)"
  proof (cases result)
    case (StreamThrew errorMessage ls)
    have eq: "messagesByAgent (runStreaming stringify formatJson env d result s) =
        messagesByAgent (failStream ?a ?mid errorMessage (snd ?ps))"
      unfolding run by (simp only: StreamThrew stream_result.case)
    show ?thesis
      unfolding eq by (rule failStream_messages)
  next
    case (StreamEnded ls)
    have eq: "messagesByAgent (runStreaming stringify formatJson env d result s) =
        messagesByAgent (finalizeStream formatJson env ?a (fst ?ps) (snd ?ps))"
      unfolding run by (simp only: StreamEnded stream_result.case)
    show ?thesis
      unfolding eq by (rule finalizeStream_messages)
  qed
  then obtain g where g: "\<forall>m. msg_id m \<noteq> ?mid \<longrightarrow> g m = m"
      "listOf (messagesByAgent (runStreaming stringify formatJson env d result s)) ?a =
       map g (listOf (messagesByAgent (snd ?ps)) ?a)"
    by blast
  show ?thesis
    by (rule exI[of _ "g \<circ> f"], rule exI[of _ "[(g \<circ> f) ?ph]"]) (use f g in simp)
qed

lemma failRpc_messages:
  "\<exists>tail. listOf (messagesByAgent (failRpc env d hs e s)) (dp_agentId d) =
       listOf (messagesByAgent s) (dp_agentId d) @ tail"
  by (simp add: failRpc_def Let_def appendMessage_def listOf_def)

lemma runRpc_messages:
  "\<exists>tail. listOf (messagesByAgent (runRpc formatJson env d result s)) (dp_agentId d) =
       listOf (messagesByAgent s) (dp_agentId d) @ tail"
proof (cases result)
  case (RpcThrew errorMessage)
  then show ?thesis
    using failRpc_messages[of env d "buildAuthHeaders (authByAgent s (dp_agentId d))" errorMessage s]
    by (simp add: runRpc_def Let_def)
next
  case (RpcData entries)
  let ?payload = "js_coalesce (jsGet (JObj entries) ''data'') (JObj entries)"
  let ?s2 = "bookkeeping (dp_agentId d) ?payload (env_trackedAt env)
               (completeLog env d (JObj entries) (Some (jsGet (JObj entries) ''status''))
                  (buildAuthHeaders (authByAgent s (dp_agentId d))) s)"
  let ?s3 = "?s2\<lparr>chatError := (case truthySummary ?payload of
                                   Some e \<Rightarrow> Some e
                                 | None \<Rightarrow> chatError ?s2)\<rparr>"
  have s3: "messagesByAgent ?s3 = messagesByAgent s"
    by simp
  show ?thesis
  proof (cases "extractResponseText formatJson ?payload")
    case None
    from failRpc_messages[of "caughtEnv env" d
        "buildAuthHeaders (authByAgent s (dp_agentId d))" TO_PRIMITIVE_ERROR ?s3]
    show ?thesis
      using RpcData None unfolding s3 by (simp add: runRpc_def Let_def)
  next
    case (Some content)
    then show ?thesis
      using RpcData by (simp add: runRpc_def Let_def)
  qed
qed

lemma prepareSend_messages:
  assumes "selectedAgent s = Some agent" and "prepareSend env text s = (Some d, s')"
  shows "dp_agentId d = card_id agent \<and>
         listOf (messagesByAgent s') (card_id agent) =
           listOf (messagesByAgent s) (card_id agent) @
           [\<lparr>msg_id = env_userMessageId env, msg_role = User, msg_content = text,
             msg_timestamp = env_timestamp env, msg_status = Some Complete, msg_error = None,
             msg_taskId = JUndef, msg_taskState = JUndef\<rparr>]"
  using assms
  by (auto simp: prepareSend_def Let_def appendMessage_def listOf_def
           split: option.splits if_splits)

lemma findIndex_first: "findIndex P xs = Some i \<Longrightarrow> \<forall>x \<in> set (take i xs). \<not> P x"
  by (induction xs arbitrary: i) (auto split: if_splits)

lemma find_in_set: "find P xs = Some x \<Longrightarrow> x \<in> set xs"
  by (induction xs) (auto split: if_splits)

lemma selectedAgent_messages [simp]:
  "selectedAgent (s\<lparr>messagesByAgent := m\<rparr>) = selectedAgent s"
  by (simp add: selectedAgent_def split: option.splits)

text \<open>
  Claim C3 says that a retry does not append a second copy of the originating user
  message. The code does append one: \<^verbatim>\<open>handleRetry\<close> removes the failed message and calls
  \<^verbatim>\<open>handleSendMessage\<close>, which always appends a user message. Whenever a retry resends
  (with fresh ids), the originating user message is still in the history and the history
  goes on, after the remaining messages, with a new user message of the same text.
\<close>

theorem handleRetry_appends_user_message:
  assumes sel: "selectedAgent s = Some agent"
    and found: "findIndex (\<lambda>m. msg_id m = errorMessageId)
                  (listOf (messagesByAgent s) (card_id agent)) = Some i"
    and origin: "find (\<lambda>m. msg_role m = User)
                   (rev (take i (listOf (messagesByAgent s) (card_id agent)))) = Some u"
    and content: "msg_content u \<noteq> []"
    and dispatched:
      "fst (prepareSend env (msg_content u)
              (s\<lparr>messagesByAgent := (messagesByAgent s)(card_id agent \<mapsto>
                    filter (\<lambda>m. msg_id m \<noteq> errorMessageId)
                      (listOf (messagesByAgent s) (card_id agent)))\<rparr>)) \<noteq> None"
    and fresh: "env_assistantMessageId env \<noteq> env_userMessageId env"
      "env_assistantMessageId env \<notin> msg_id ` set (listOf (messagesByAgent s) (card_id agent))"
  shows "let kept = filter (\<lambda>m. msg_id m \<noteq> errorMessageId)
                      (listOf (messagesByAgent s) (card_id agent));
             after = listOf (messagesByAgent
                       (handleRetry stringify formatJson streamRoute rpcRoute env errorMessageId s))
                       (card_id agent)
         in u \<in> set kept \<and>
            take (length kept + 1) after =
              kept @ [\<lparr>msg_id = env_userMessageId env, msg_role = User,
                       msg_content = msg_content u, msg_timestamp = env_timestamp env,
                       msg_status = Some Complete, msg_error = None,
                       msg_taskId = JUndef, msg_taskState = JUndef\<rparr>]"
proof -
  let ?a = "card_id agent"
  let ?messages = "listOf (messagesByAgent s) ?a"
  let ?kept = "filter (\<lambda>m. msg_id m \<noteq> errorMessageId) ?messages"
  let ?s0 = "s\<lparr>messagesByAgent := (messagesByAgent s)(?a \<mapsto> ?kept)\<rparr>"
  let ?um = "\<lparr>msg_id = env_userMessageId env, msg_role = User,
                       msg_content = msg_content u, msg_timestamp = env_timestamp env,
                       msg_status = Some Complete, msg_error = None,
                       msg_taskId = JUndef, msg_taskState = JUndef\<rparr>"
  let ?after = "handleRetry stringify formatJson streamRoute rpcRoute env errorMessageId s"
  from dispatched obtain d s1 where send: "prepareSend env (msg_content u) ?s0 = (Some d, s1)"
    by (cases "prepareSend env (msg_content u) ?s0") auto
  have sel0: "selectedAgent ?s0 = Some agent"
    using sel by simp
  from prepareSend_messages[OF sel0 send]
  have agent: "dp_agentId d = ?a" and s1: "listOf (messagesByAgent s1) ?a = ?kept @ [?um]"
    by (simp_all add: listOf_def)
  have retry: "?after =
      (case dp_transport d of
         ViaStream \<Rightarrow> runStreaming stringify formatJson env d (streamRoute (dp_body d)) s1
       | ViaRpc \<Rightarrow> runRpc formatJson env d (rpcRoute (dp_body d)) s1)"
    using sel found origin content send
    by (simp add: handleRetry_def handleSendMessage_def Let_def)
  have "\<exists>f tail. (\<forall>m. msg_id m \<noteq> env_assistantMessageId env \<longrightarrow> f m = m) \<and>
      listOf (messagesByAgent ?after) ?a = map f (?kept @ [?um]) @ tail"
  proof (cases "dp_transport d")
    case ViaStream
    then show ?thesis
      using runStreaming_messages[of env stringify formatJson d "streamRoute (dp_body d)" s1]
        retry agent s1 by simp
  next
    case ViaRpc
    from runRpc_messages[of formatJson env d "rpcRoute (dp_body d)" s1]
    obtain tail where "listOf (messagesByAgent ?after) ?a = (?kept @ [?um]) @ tail"
      using retry agent s1 ViaRpc by auto
    then show ?thesis
      by (intro exI[of _ id] exI[of _ tail]) simp
  qed
  then obtain f tail where f: "\<forall>m. msg_id m \<noteq> env_assistantMessageId env \<longrightarrow> f m = m"
    and after: "listOf (messagesByAgent ?after) ?a = map f (?kept @ [?um]) @ tail"
    by blast
  have "map f (?kept @ [?um]) = ?kept @ [?um]"
  proof (rule map_idI)
    fix m assume "m \<in> set (?kept @ [?um])"
    then have "msg_id m \<noteq> env_assistantMessageId env"
      using fresh by (auto simp: image_iff)
    with f show "f m = m"
      by blast
  qed
  with after have prefix: "take (length ?kept + 1) (listOf (messagesByAgent ?after) ?a) = ?kept @ [?um]"
    by simp
  from find_in_set[OF origin] have "u \<in> set (take i ?messages)"
    by simp
  then have "u \<in> set ?messages" and "msg_id u \<noteq> errorMessageId"
    using findIndex_first[OF found] by (auto dest: in_set_takeD)
  then have "u \<in> set ?kept"
    by simp
  with prefix show ?thesis
    by (simp add: Let_def)
qed

theorem handleRetry_appends_user_message_witness:
  "take 2 (listOf (messagesByAgent
       (handleRetry (\<lambda>_. ''{}'') (\<lambda>_. ''{}'') completedStream completedReply exampleEnv ''a1''
          echoSession)) ''https://x/a'') =
     [\<lparr>msg_id = ''u1'', msg_role = User, msg_content = ''hello'',
       msg_timestamp = ''2026-01-01T00:00:00.000Z'', msg_status = Some Complete,
       msg_error = None, msg_taskId = JUndef, msg_taskState = JUndef\<rparr>,
      \<lparr>msg_id = ''u2'', msg_role = User, msg_content = ''hello'',
       msg_timestamp = ''2026-01-01T00:01:00.000Z'', msg_status = Some Complete,
       msg_error = None, msg_taskId = JUndef, msg_taskState = JUndef\<rparr>]"
proof -
  have sel: "selectedAgent echoSession = Some echoCard"
    by (simp add: selectedAgent_def echoSession_def initialState_def echoCard_def)
  have msgs: "listOf (messagesByAgent echoSession) (card_id echoCard) = echoMessages"
    by (simp add: listOf_def echoSession_def echoCard_def)
  have found: "findIndex (\<lambda>m. msg_id m = ''a1'')
                 (listOf (messagesByAgent echoSession) (card_id echoCard)) = Some 1"
    by (simp add: msgs echoMessages_def)
  have origin: "find (\<lambda>m. msg_role m = User)
                  (rev (take 1 (listOf (messagesByAgent echoSession) (card_id echoCard))))
                = Some (hd echoMessages)"
    by (simp add: msgs echoMessages_def)
  have dispatched:
    "fst (prepareSend exampleEnv (msg_content (hd echoMessages))
            (echoSession\<lparr>messagesByAgent := (messagesByAgent echoSession)(card_id echoCard \<mapsto>
                  filter (\<lambda>m. msg_id m \<noteq> ''a1'')
                    (listOf (messagesByAgent echoSession) (card_id echoCard)))\<rparr>)) \<noteq> None"
    by (simp add: prepareSend_def Let_def selectedAgent_def chosenEndpoint_def chosenMethod_def
          nonEmpty_def echoSession_def initialState_def echoCard_def echoMessages_def trim_examples SUPPORTED_METHODS_def)
  have msgs': "listOf (messagesByAgent echoSession) ''https://x/a'' = echoMessages"
    by (simp add: listOf_def echoSession_def)
  show ?thesis
    using handleRetry_appends_user_message
      [OF sel found origin _ dispatched, of "\<lambda>_. ''{}''" "\<lambda>_. ''{}''" completedStream
         completedReply]
    by (simp add: msgs' Let_def echoMessages_def exampleEnv_def echoCard_def numeral_2_eq_2)
qed

subsection \<open>Normalizing a card with only a root url\<close>

lemma string_of_nat_1: "string_of_nat (Suc 0) = ''1''"
  by (simp add: string_of_nat.simps digit_char_def)

text \<open>The candidate synthesized from the root url, as \<open>normalizeEndpoint\<close> settles it.\<close>

lemma normalizeEndpoint_synthesized:
  assumes "url \<noteq> []" "validateUrl url" "name \<noteq> []" "trim url = url" "trim name = name"
  shows "\<exists>ep. normalizeEndpoint validateUrl 0
             (JObj [(''url'', JStr url), (''name'', JStr name), (''protocol'', JStr hint)], hint)
           = Inr ep \<and> ep_url ep = url \<and> ep_name ep = name"
  using assms
  by (simp add: normalizeEndpoint_def Let_def js_or_def orElse_def)

text \<open>The example card \<open>echoCard\<close> is what the normalizer makes of that payload.\<close>

lemma normalizeAgentCard_scenarioA:
  "normalizeAgentCard asciiLower httpsUrl scenarioA (Some ''https://x/a'') = Inr echoCard"
  by (simp add: normalizeAgentCard_def scenarioA_def Let_def collectEndpointCandidates_def
        normalizeEndpoint_def js_or_def orElse_def asciiLower_def DEFAULT_PROTOCOL_def
        lefts_def rights_def httpsUrl_def string_of_nat_1 List.map_filter_simps echoCard_def
        nonEmpty_def nonEmptyList_def stringArray_def trim_examples)

text \<open>
  Claim C7, as stated, names the endpoint \<^verbatim>\<open>Agent URL\<close>. The source names the endpoint
  synthesized from the root \<^verbatim>\<open>url\<close> after the card: \<^verbatim>\<open>asString(card.name) || "Agent URL"\<close>.
  The card of the claim has the name \<^verbatim>\<open>Echo\<close>, so its endpoint is named \<^verbatim>\<open>Echo\<close>.
\<close>

theorem normalizeAgentCard_root_url_counterexample:
  "normalizeAgentCard asciiLower httpsUrl scenarioA (Some ''https://x/a'') = Inr echoCard \<and>
   map ep_name (endpoints echoCard) = [''Echo''] \<and>
   map ep_name (endpoints echoCard) \<noteq> [''Agent URL'']"
  using normalizeAgentCard_scenarioA by (simp add: echoCard_def)

text \<open>
  Claim C7, amended: a card object that has no \<^verbatim>\<open>endpoints\<close> and no \<^verbatim>\<open>endpoint\<close> field, a
  name and a root \<^verbatim>\<open>url\<close> that are strings with something left after trimming, and whose
  trimmed url the URL parser accepts, is normalized with success. The card has exactly
  one endpoint: its url is the trimmed root url and its name is the trimmed name of the
  card (\<^verbatim>\<open>Echo\<close> for the card of the claim, not \<^verbatim>\<open>Agent URL\<close>). \<^verbatim>\<open>capabilities.streaming\<close> is
  true exactly when the card says \<^verbatim>\<open>true\<close>, so it is false for \<^verbatim>\<open>streaming:false\<close>. This
  holds whatever \<^verbatim>\<open>toLowerCase\<close> and the URL parser do on other texts.
\<close>

theorem normalizeAgentCard_root_url:
  assumes no_endpoints: "jsGet (JObj entries) ''endpoints'' = JUndef"
    and no_endpoint: "jsGet (JObj entries) ''endpoint'' = JUndef"
    and name: "jsGet (JObj entries) ''name'' = JStr n" "trim n \<noteq> []"
    and url: "jsGet (JObj entries) ''url'' = JStr u" "trim u \<noteq> []" "validateUrl (trim u)"
  shows "\<exists>c ep. normalizeAgentCard toLowerCase validateUrl (JObj entries) sourceUrl = Inr c \<and>
           endpoints c = [ep] \<and> ep_url ep = trim u \<and> ep_name ep = trim n \<and>
           streaming (capabilities c) =
             (jsGet (jsGet (JObj entries) ''capabilities'') ''streaming'' = JBool True)"
proof -
  let ?hint = "orElse (toLowerCase (asString (jsGet (JObj entries) ''preferredTransport'')))
                 ''jsonrpc''"
  have candidates: "collectEndpointCandidates toLowerCase (JObj entries) =
      [(JObj [(''url'', JStr (trim u)), (''name'', JStr (trim n)), (''protocol'', JStr ?hint)],
        ?hint)]"
    using assms by (simp add: collectEndpointCandidates_def Let_def orElse_def DEFAULT_PROTOCOL_def)
  have "\<exists>ep. normalizeEndpoint validateUrl 0
      (JObj [(''url'', JStr (trim u)), (''name'', JStr (trim n)), (''protocol'', JStr ?hint)], ?hint)
      = Inr ep \<and> ep_url ep = trim u \<and> ep_name ep = trim n"
    using url(2,3) name(2)
    by (intro normalizeEndpoint_synthesized
          [where url = "trim u" and name = "trim n" and validateUrl = validateUrl])
       (simp_all add: trim_idem)
  then obtain ep where endpoint: "normalizeEndpoint validateUrl 0
      (JObj [(''url'', JStr (trim u)), (''name'', JStr (trim n)), (''protocol'', JStr ?hint)], ?hint)
      = Inr ep" and ep: "ep_url ep = trim u" "ep_name ep = trim n"
    by blast
  have streaming: "(case asRecord (jsGet (JObj entries) ''capabilities'') of
                      Some r \<Rightarrow> jsGet r ''streaming'' = JBool True | None \<Rightarrow> False) =
                   (jsGet (jsGet (JObj entries) ''capabilities'') ''streaming'' = JBool True)"
    by (cases "jsGet (JObj entries) ''capabilities''") simp_all
  show ?thesis
    using name candidates endpoint ep streaming
    by (simp add: normalizeAgentCard_def Let_def lefts_def rights_def List.map_filter_simps)
qed

theorem normalizeAgentCard_root_url_witness:
  "\<exists>c ep. normalizeAgentCard asciiLower httpsUrl scenarioA (Some ''https://x/a'') = Inr c \<and>
       endpoints c = [ep] \<and> ep_url ep = ''https://x/a'' \<and> ep_name ep = ''Echo'' \<and>
       streaming (capabilities c) = False"
  using normalizeAgentCard_root_url
    [of "[(''name'', JStr ''Echo''), (''url'', JStr ''https://x/a''),
          (''capabilities'', JObj [(''streaming'', JBool False)])]"
        "''Echo''" "''https://x/a''" httpsUrl asciiLower "Some ''https://x/a''"]
  by (simp add: scenarioA_def httpsUrl_def trim_examples)

text \<open>
  White space beyond ASCII is trimmed too: a no-break space (U+00A0) before and a line
  separator (U+2028) and a space after a name are stripped, and a card whose name is a
  no-break space alone has no name and is rejected, as is every card without a name; the
  name \<^verbatim>\<open>Agent URL\<close> can only be given to the endpoint of such a card.
\<close>

lemma trim_unicode_example:
  "trim ([CHR 0xC2, CHR 0xA0] @ ''Echo'' @ [CHR 0xE2, CHR 0x80, CHR 0xA8, CHR 0x20]) = ''Echo''"
  "trim [CHR 0xC2, CHR 0xA0] = []"
  by (simp_all add: trim_def stripLeading.simps whiteSpace_def)

lemma normalizeAgentCard_requires_name:
  assumes "asString (jsGet (JObj entries) ''name'') = []"
  shows "\<exists>errors. normalizeAgentCard toLowerCase validateUrl (JObj entries) sourceUrl = Inl errors \<and>
           ''Missing required field: name.'' \<in> set errors"
  using assms by (simp add: normalizeAgentCard_def Let_def)

lemma normalizeAgentCard_blank_name:
  "normalizeAgentCard asciiLower httpsUrl
     (JObj [(''name'', JStr [CHR 0xC2, CHR 0xA0]), (''url'', JStr ''https://x/a'')]) None
   = Inl [''Missing required field: name.'']"
  by (simp add: normalizeAgentCard_def Let_def collectEndpointCandidates_def
        normalizeEndpoint_def js_or_def orElse_def asciiLower_def DEFAULT_PROTOCOL_def
        lefts_def rights_def httpsUrl_def List.map_filter_simps trim_examples
        trim_unicode_example)

subsection \<open>Choice of the transport\<close>

text \<open>
  Claim C1, as stated, has the event stream used whenever the selected method is
  \<^verbatim>\<open>message/stream\<close>. The page computes \<^verbatim>\<open>useStreaming = forceStreaming || supportsStreaming\<close>
  and then branches on \<^verbatim>\<open>useStreaming && supportsStreaming\<close>, which is \<^verbatim>\<open>supportsStreaming\<close>:
  in the example session, whose method is \<^verbatim>\<open>message/stream\<close> and whose card declares
  \<^verbatim>\<open>streaming:false\<close>, the send goes to the rpc route.
\<close>

theorem prepareSend_forced_stream_counterexample:
  "chosenMethod echoCard echoSession = ''message/stream'' \<and>
   streaming (capabilities echoCard) = False \<and>
   map_option dp_transport (fst (prepareSend exampleEnv ''hello'' echoSession)) = Some ViaRpc \<and>
   map_option dp_transport (fst (prepareSend exampleEnv ''hello'' echoSession)) \<noteq> Some ViaStream"
  by (simp add: prepareSend_def Let_def selectedAgent_def chosenEndpoint_def chosenMethod_def
        nonEmpty_def echoSession_def initialState_def echoCard_def trim_examples
        SUPPORTED_METHODS_def)

lemma chosenMethod_chatError:
  "chosenMethod agent (s\<lparr>chatError := e\<rparr>) = chosenMethod agent s"
  by (simp add: chosenMethod_def)

text \<open>
  Claim C1, amended. A send that is dispatched uses the event stream exactly when the
  card of the selected agent declares streaming, whatever the method: it then runs the
  streaming exchange with the stream route, and otherwise makes the single non-streaming
  call to the rpc route, in both cases with the body that carries the selected method.
  And when the stream route is asked for an agent whose card, as the route fetches it,
  declares no streaming, with an endpoint and no auth, it still posts to the endpoint
  asking for an event stream; a response that is not an event stream but JSON (not
  \<^verbatim>\<open>null\<close>) is answered as one synthesized \<^verbatim>\<open>data:\<close> event with \<^verbatim>\<open>data.result ?? data\<close>,
  followed by the \<^verbatim>\<open>[DONE]\<close> marker.
\<close>

theorem transport_follows_card:
  "(selectedAgent s = Some agent \<and> prepareSend env messageText s = (Some d, s') \<longrightarrow>
      (dp_transport d = ViaStream \<longleftrightarrow> streaming (capabilities agent)) \<and>
      rq_method (dp_body d) = Some (chosenMethod agent s) \<and>
      handleSendMessage stringify formatJson streamRoute rpcRoute env messageText s =
        (if streaming (capabilities agent)
         then runStreaming stringify formatJson env d (streamRoute (dp_body d)) s'
         else runRpc formatJson env d (rpcRoute (dp_body d)) s')) \<and>
   (rq_cardUrl body = Some cardUrl \<and> cardUrl \<noteq> [] \<and>
    rq_endpointUrl body = Some endpointUrl \<and> endpointUrl \<noteq> [] \<and>
    rq_method body = Some ''message/stream'' \<and> rq_auth body = None \<and>
    isMessageSendParams (rq_params body) \<and>
    net_card net cardUrl [] = Inr False \<and>
    directStreamingCall net endpointUrl ''message/stream'' (rq_params body) [] = UpstreamText reply \<and>
    parseJson reply = Inr data \<and> \<not> nullish data \<longrightarrow>
      streamPOST stringify parseJson net (Some body) =
        (EventStream (sseEvent (stringify (js_coalesce (jsGet data ''result'') data))
                      @ sseEvent ''[DONE]''),
         [SdkCardFetch cardUrl [],
          sseRequest endpointUrl ''message/stream'' (rq_params body) []]))"
proof (intro conjI impI)
  assume page: "selectedAgent s = Some agent \<and> prepareSend env messageText s = (Some d, s')"
  then have transport: "dp_transport d = (if streaming (capabilities agent) then ViaStream else ViaRpc)"
    and carried: "rq_method (dp_body d) = Some (chosenMethod agent s)"
    by (auto simp: prepareSend_def Let_def chosenMethod_chatError split: option.splits if_splits)
  from transport show "dp_transport d = ViaStream \<longleftrightarrow> streaming (capabilities agent)"
    by simp
  from carried show "rq_method (dp_body d) = Some (chosenMethod agent s)" .
  from page transport
  show "handleSendMessage stringify formatJson streamRoute rpcRoute env messageText s =
        (if streaming (capabilities agent)
         then runStreaming stringify formatJson env d (streamRoute (dp_body d)) s'
         else runRpc formatJson env d (rpcRoute (dp_body d)) s')"
    by (simp add: handleSendMessage_def)
next
  assume route: "rq_cardUrl body = Some cardUrl \<and> cardUrl \<noteq> [] \<and>
    rq_endpointUrl body = Some endpointUrl \<and> endpointUrl \<noteq> [] \<and>
    rq_method body = Some ''message/stream'' \<and> rq_auth body = None \<and>
    isMessageSendParams (rq_params body) \<and>
    net_card net cardUrl [] = Inr False \<and>
    directStreamingCall net endpointUrl ''message/stream'' (rq_params body) [] = UpstreamText reply \<and>
    parseJson reply = Inr data \<and> \<not> nullish data"
  then show "streamPOST stringify parseJson net (Some body) =
        (EventStream (sseEvent (stringify (js_coalesce (jsGet data ''result'') data))
                      @ sseEvent ''[DONE]''),
         [SdkCardFetch cardUrl [],
          sseRequest endpointUrl ''message/stream'' (rq_params body) []])"
    by (simp add: streamPOST_def Let_def buildAuthHeaders_def getAuthTokenForSdk_def hasAuth_def
          nonEmpty_def synthesizedStream_def)
qed

theorem transport_follows_card_witness:
  "handleSendMessage examplePrint (\<lambda>_. ''{}'') completedStream completedReply exampleEnv ''hello''
     echoSession =
     runRpc (\<lambda>_. ''{}'') exampleEnv (the (fst (prepareSend exampleEnv ''hello'' echoSession)))
       (completedReply (dp_body (the (fst (prepareSend exampleEnv ''hello'' echoSession)))))
       (snd (prepareSend exampleEnv ''hello'' echoSession)) \<and>
   rq_method (dp_body (the (fst (prepareSend exampleEnv ''hello'' echoSession))))
     = Some ''message/stream'' \<and>
   streamPOST examplePrint exampleParse plainJsonAgent (Some forcedStreamBody) =
     (EventStream (''data: {task}'' @ [NL, NL] @ ''data: [DONE]'' @ [NL, NL]),
      [SdkCardFetch ''https://x/card'' [],
       sseRequest ''https://x/a'' ''message/stream'' helloParams []])"
proof -
  have sel: "selectedAgent echoSession = Some echoCard"
    by (simp add: selectedAgent_def echoSession_def initialState_def echoCard_def)
  obtain d s' where send: "prepareSend exampleEnv ''hello'' echoSession = (Some d, s')"
    by (simp add: prepareSend_def Let_def selectedAgent_def chosenEndpoint_def chosenMethod_def
          nonEmpty_def echoSession_def initialState_def echoCard_def trim_examples
          SUPPORTED_METHODS_def)
  have picked: "chosenMethod echoCard echoSession = ''message/stream''"
    by (simp add: chosenMethod_def nonEmpty_def echoSession_def echoCard_def)
  have declared: "streaming (capabilities echoCard) = False"
    by (simp add: echoCard_def)
  have params: "isMessageSendParams helloParams"
    by (simp add: isMessageSendParams_def helloParams_def)
  have reply: "directStreamingCall plainJsonAgent ''https://x/a'' ''message/stream'' helloParams []
                 = UpstreamText ''{result}''"
    by (simp add: directStreamingCall_def plainJsonAgent_def)
  have parsed: "exampleParse ''{result}'' = Inr (JObj [(''result'', taskPayload ''completed'')])"
    by (simp add: exampleParse_def)
  have printed: "examplePrint (taskPayload ''completed'') = ''{task}''"
    by (simp add: examplePrint_def)
  have result: "\<not> nullish (taskPayload ''completed'')"
    by (simp add: taskPayload_def)
  show ?thesis
    using transport_follows_card
      [of echoSession echoCard exampleEnv "''hello''" d s' examplePrint "\<lambda>_. ''{}''"
          completedStream completedReply forcedStreamBody "''https://x/card''" "''https://x/a''"
          plainJsonAgent "''{result}''" exampleParse
          "JObj [(''result'', taskPayload ''completed'')]"]
      sel send picked declared params reply parsed printed result
    by (simp add: forcedStreamBody_def plainJsonAgent_def js_coalesce_def sseEvent_def)
qed

subsection \<open>Auth that builds no header\<close>

text \<open>
  The stream route rejects a request whose auth type is set but builds no header, before
  anything is sent to the agent.
\<close>

lemma streamPOST_rejects_unusable_auth:
  assumes "hasAuth (rq_auth body)" and "buildAuthHeaders (rq_auth body) = []"
  shows "streamPOST stringify parseJson net (Some body) = (jsonError 400 AUTH_GUIDANCE, [])"
  using assms by (simp add: streamPOST_def Let_def)

text \<open>
  The \<^verbatim>\<open>catch\<close> block of the rpc route sends nothing back that was not sent before, and
  answers with an error of status 500 or with a success.
\<close>

lemma rpcSuccess_not_error: "rpcSuccess data streamed extra \<noteq> jsonError status message"
  by (simp add: rpcSuccess_def jsonError_def)

lemma rpcCatch_sent:
  "trace \<noteq> [] \<Longrightarrow> snd (rpcCatch net cardUrl method params authHeaders message trace) \<noteq> [] \<and>
     fst (rpcCatch net cardUrl method params authHeaders message trace) \<noteq> jsonError 400 guidance"
  by (auto simp: rpcCatch_def jsonError_def rpcSuccess_def split: sum.splits)
text \<open>
  Claim C8 says that a request whose auth type is \<^verbatim>\<open>apiKey\<close> or \<^verbatim>\<open>custom\<close> but whose
  header map is empty is rejected on the non-streaming path too. The rpc route
  \<^verbatim>\<open>app/api/agents/rpc/route.ts\<close> has no such check: whatever the auth configuration, a body
  that has an endpoint or a card url, a supported method and message params makes the
  route send a request to the agent, and the answer is never the guidance message.
\<close>

theorem rpcPOST_sends_whatever_auth:
  assumes target: "(rq_cardUrl body \<noteq> None \<and> rq_cardUrl body \<noteq> Some []) \<or>
                   (rq_endpointUrl body \<noteq> None \<and> rq_endpointUrl body \<noteq> Some [])"
    and supported: "rq_method body = None \<or> rq_method body = Some ''message/send'' \<or>
                 rq_method body = Some ''message/stream''"
    and params: "isMessageSendParams (rq_params body)"
  shows "snd (rpcPOST net (Some body)) \<noteq> [] \<and>
         fst (rpcPOST net (Some body)) \<noteq> jsonError 400 AUTH_GUIDANCE"
proof -
  define cardUrl where "cardUrl = (case rq_cardUrl body of Some u \<Rightarrow> u | None \<Rightarrow> '''')"
  define endpointUrl where "endpointUrl = (case rq_endpointUrl body of Some u \<Rightarrow> u | None \<Rightarrow> '''')"
  define rpcMethod where "rpcMethod = (case rq_method body of Some m \<Rightarrow> m | None \<Rightarrow> ''message/send'')"
  define hs where "hs = buildAuthHeaders (rq_auth body)"
  define tok where "tok = getAuthTokenForSdk (rq_auth body)"
  define requestStreaming where "requestStreaming =
    (if rpcMethod = ''message/stream'' then True
     else (case rq_streaming body of Some b \<Rightarrow> b | None \<Rightarrow> True))"
  have t: "\<not> (cardUrl = [] \<and> endpointUrl = [])"
    using target by (auto simp: cardUrl_def endpointUrl_def split: option.splits)
  have m: "rpcMethod \<in> set [''message/send'', ''message/stream'']"
    using supported by (auto simp: rpcMethod_def split: option.splits)
  have run: "rpcPOST net (Some body) =
      (if cardUrl = [] \<and> endpointUrl \<noteq> [] then
         (case directJsonRpcCall net endpointUrl rpcMethod (rq_params body) hs of
            Inl message \<Rightarrow>
              rpcCatch net cardUrl rpcMethod (rq_params body) hs message
                [jsonRpcRequest endpointUrl rpcMethod (rq_params body) hs]
          | Inr data \<Rightarrow>
              (rpcSuccess data False [], [jsonRpcRequest endpointUrl rpcMethod (rq_params body) hs]))
       else
         (case net_card net cardUrl tok of
            Inl message \<Rightarrow>
              rpcCatch net cardUrl rpcMethod (rq_params body) hs message [SdkCardFetch cardUrl tok]
          | Inr supportsStreaming \<Rightarrow>
              if requestStreaming \<and> supportsStreaming then
                (case net_sendMessageStream net cardUrl tok (rq_params body) of
                   (events, failure) \<Rightarrow>
                     let consumed = fst (consumedEvents events);
                         stopped = snd (consumedEvents events)
                     in (case (if stopped then None else failure) of
                           Some message \<Rightarrow>
                             rpcCatch net cardUrl rpcMethod (rq_params body) hs message
                               [SdkCardFetch cardUrl tok, SdkStream (rq_params body)]
                         | None \<Rightarrow>
                             (rpcSuccess
                                (js_coalesce (finalResult consumed)
                                   (js_coalesce
                                      (if consumed = [] then JUndef else last consumed) JNull))
                                True [(''events'', JArr consumed)],
                              [SdkCardFetch cardUrl tok, SdkStream (rq_params body)])))
              else
                (case net_sendMessage net cardUrl tok (rq_params body) of
                   Inl message \<Rightarrow>
                     rpcCatch net cardUrl rpcMethod (rq_params body) hs message
                       [SdkCardFetch cardUrl tok, SdkSend (rq_params body)]
                 | Inr data \<Rightarrow>
                     (rpcSuccess data False [],
                      [SdkCardFetch cardUrl tok, SdkSend (rq_params body)]))))"
    unfolding rpcPOST_def option.case Let_def
      cardUrl_def[symmetric] endpointUrl_def[symmetric] rpcMethod_def[symmetric]
      hs_def[symmetric] tok_def[symmetric] requestStreaming_def[symmetric]
    using t m params by (simp only: if_False if_True not_True_eq_False)
  show ?thesis
  proof (cases "cardUrl = [] \<and> endpointUrl \<noteq> []")
    case True
    then show ?thesis
      unfolding run
      by (cases "directJsonRpcCall net endpointUrl rpcMethod (rq_params body) hs")
         (simp_all add: rpcCatch_sent rpcSuccess_not_error)
  next
    case False
    then have sdk: "(cardUrl = [] \<and> endpointUrl \<noteq> []) = False"
      by simp
    show ?thesis
    proof (cases "net_card net cardUrl tok")
      case (Inl message)
      then show ?thesis
        unfolding run sdk if_False by (simp add: rpcCatch_sent)
    next
      case (Inr supportsStreaming)
      show ?thesis
      proof (cases "requestStreaming \<and> supportsStreaming")
        case True
        then have streamed: "(requestStreaming \<and> supportsStreaming) = True"
          by simp
        obtain events failure where
          stream: "net_sendMessageStream net cardUrl tok (rq_params body) = (events, failure)"
          by (cases "net_sendMessageStream net cardUrl tok (rq_params body)")
        show ?thesis
          unfolding run sdk if_False Inr sum.case streamed if_True stream prod.case
          by (cases "if snd (consumedEvents events) then None else failure")
             (simp_all add: Let_def rpcCatch_sent rpcSuccess_not_error)
      next
        case False
        then have sent: "(requestStreaming \<and> supportsStreaming) = False"
          by simp
        show ?thesis
          unfolding run sdk if_False Inr sum.case sent
          by (cases "net_sendMessage net cardUrl tok (rq_params body)")
             (simp_all add: rpcCatch_sent rpcSuccess_not_error)
      qed
    qed
  qed
qed

text \<open>
  The request of the example: in the session with the unusable API key, sending \<^verbatim>\<open>hello\<close>
  goes to the rpc route (the card declares no streaming), with this body.
\<close>

lemma prepareSend_misconfigured:
  "map_option (\<lambda>d. (dp_transport d, dp_body d))
     (fst (prepareSend exampleEnv ''hello'' misconfiguredSession)) = Some (ViaRpc, unusableAuthBody)"
  by (simp add: prepareSend_def Let_def selectedAgent_def chosenEndpoint_def chosenMethod_def
        nonEmpty_def misconfiguredSession_def initialState_def echoCard_def trim_examples
        SUPPORTED_METHODS_def unusableAuthBody_def helloParams_def buildMessagePayload_def
        buildRequestParams_def valueOf_def exampleEnv_def)

theorem rpcPOST_sends_whatever_auth_witness:
  "hasAuth (rq_auth unusableAuthBody) \<and>
   buildAuthHeaders (rq_auth unusableAuthBody) = [] \<and>
   snd (rpcPOST plainJsonAgent (Some unusableAuthBody)) \<noteq> [] \<and>
   fst (rpcPOST plainJsonAgent (Some unusableAuthBody)) \<noteq> jsonError 400 AUTH_GUIDANCE \<and>
   rpcPOST plainJsonAgent (Some unusableAuthBody) =
     (rpcSuccess (taskPayload ''completed'') False [],
      [SdkCardFetch ''https://x/a'' '''', SdkSend helloParams]) \<and>
   streamPOST examplePrint exampleParse plainJsonAgent (Some unusableAuthBody) =
     (jsonError 400 AUTH_GUIDANCE, [])"
proof -
  have params: "isMessageSendParams helloParams"
    by (simp add: isMessageSendParams_def helloParams_def)
  have none: "buildAuthHeaders (Some unusableAuth) = []"
    by (simp add: buildAuthHeaders_def unusableAuth_def)
  have auth: "hasAuth (Some unusableAuth)"
    by (simp add: hasAuth_def unusableAuth_def)
  have tok: "getAuthTokenForSdk (Some unusableAuth) = ''''"
    by (simp add: getAuthTokenForSdk_def unusableAuth_def)
  have sent: "rpcPOST plainJsonAgent (Some unusableAuthBody) =
     (rpcSuccess (taskPayload ''completed'') False [],
      [SdkCardFetch ''https://x/a'' '''', SdkSend helloParams])"
    by (simp add: rpcPOST_def Let_def unusableAuthBody_def params none tok plainJsonAgent_def)
  have rejected: "streamPOST examplePrint exampleParse plainJsonAgent (Some unusableAuthBody) =
     (jsonError 400 AUTH_GUIDANCE, [])"
    by (rule streamPOST_rejects_unusable_auth) (simp_all add: unusableAuthBody_def none auth)
  show ?thesis
    using rpcPOST_sends_whatever_auth[of unusableAuthBody plainJsonAgent] params none auth sent
      rejected
    by (simp add: unusableAuthBody_def)
qed

end
